theory Spec2Isabelle
  imports Main "HOL-Library.Char_ord" "HOL-Library.List_Lexorder"
begin

section \<open>Library functions of Go used by the client\<close>

text \<open>
  Go strings are byte sequences; \<^typ>\<open>string\<close> is a list of 8-bit characters.
  Go's \<^verbatim>\<open>int\<close> is modelled by \<^typ>\<open>int\<close>: the program does no arithmetic on
  the integers it carries, it only compares them with zero and prints them.
\<close>

subsection \<open>strconv.Itoa\<close>

definition digit :: "nat \<Rightarrow> char" where
  "digit n = ''0123456789'' ! n"

function utoa :: "nat \<Rightarrow> string" where
  "utoa n = (if n < 10 then [digit n] else utoa (n div 10) @ [digit (n mod 10)])"
  by pat_completeness auto
termination
  by (relation "measure (\<lambda>n. n)") auto

declare utoa.simps [simp del]

definition Itoa :: "int \<Rightarrow> string" where
  "Itoa i = (if i < 0 then CHR ''-'' # utoa (nat (- i)) else utoa (nat i))"

subsection \<open>strings.ToLower and strings.HasPrefix\<close>

text \<open>
  \<^verbatim>\<open>strings.ToLower\<close> is modelled on the ASCII letters. Go also maps upper-case
  letters outside ASCII, none of which is mapped to one of the letters of \<^verbatim>\<open>http\<close>,
  the only word the program compares the result with.
\<close>

definition ToLower_char :: "char \<Rightarrow> char" where
  "ToLower_char c =
     (case map_of (zip ''ABCDEFGHIJKLMNOPQRSTUVWXYZ'' ''abcdefghijklmnopqrstuvwxyz'') c of
        Some l \<Rightarrow> l
      | None \<Rightarrow> c)"

definition ToLower :: "string \<Rightarrow> string" where
  "ToLower s = map ToLower_char s"

definition HasPrefix :: "string \<Rightarrow> string \<Rightarrow> bool" where
  "HasPrefix s p = (take (length p) s = p)"

subsection \<open>base64.StdEncoding.EncodeToString\<close>

definition encodeStd :: string where
  "encodeStd = ''ABCDEFGHIJKLMNOPQRSTUVWXYZabcdefghijklmnopqrstuvwxyz0123456789+/''"

definition b64 :: "nat \<Rightarrow> char" where
  "b64 n = encodeStd ! (n mod 64)"

text \<open>Three input bytes give four output characters; a final group of one or two bytes
  is padded with \<^verbatim>\<open>=\<close>.\<close>

fun EncodeToString :: "string \<Rightarrow> string" where
  "EncodeToString [] = []"
| "EncodeToString [a] =
     (let v = of_char a * 65536
      in [b64 (v div 262144), b64 (v div 4096), CHR ''='', CHR ''=''])"
| "EncodeToString [a, b] =
     (let v = of_char a * 65536 + of_char b * 256
      in [b64 (v div 262144), b64 (v div 4096), b64 (v div 64), CHR ''=''])"
| "EncodeToString (a # b # c # rest) =
     (let v = of_char a * 65536 + of_char b * 256 + of_char c
      in [b64 (v div 262144), b64 (v div 4096), b64 (v div 64), b64 v]
         @ EncodeToString rest)"

section \<open>The client (package client)\<close>

definition SandboxBaseDomain :: string where
  "SandboxBaseDomain = ''sandbox-rest.avatax.com''"

definition ProductionBaseURL :: string where
  "ProductionBaseURL = ''https://rest.avatax.com''"

definition SandboxBaseURL :: string where
  "SandboxBaseURL = ''https://sandbox-rest.avatax.com''"

definition TestBaseURL :: string where
  "TestBaseURL = ''http://localhost:8080''"

text \<open>The field \<^verbatim>\<open>httpClient\<close> is the HTTP client of the SDK: the function \<open>Do\<close> below, over the
  environment \<open>Env\<close>.\<close>

record AvalaraClient =
  baseURL :: string
  credentials :: string
  clientHeader :: string

record PaginationOptions =
  Top :: int
  Skip :: int
  OrderBy :: string
  Filter :: string
  NextLink :: string

definition NewAvalaraClient :: "string \<Rightarrow> AvalaraClient" where
  "NewAvalaraClient environment =
     (let baseURL =
        (if HasPrefix (ToLower environment) ''http'' then environment
         else if environment = ''sandbox'' then SandboxBaseURL
         else if environment = ''test'' then TestBaseURL
         else ProductionBaseURL);
          appName = ''baton-avalara'';
          appVersion = ''1.0.0'';
          clientID = appName @ ''; '' @ appVersion @ ''; Go SDK; API_VERSION''
      in \<lparr>baseURL = baseURL, credentials = '''', clientHeader = clientID\<rparr>)"

text \<open>The older constructor kept in \<^verbatim>\<open>pkg/client/client.go\<close>: no URL selector, other hosts.\<close>

definition NewAvalaraClient_v0 :: "string \<Rightarrow> AvalaraClient" where
  "NewAvalaraClient_v0 environment =
     (let baseURL =
        (if environment = ''sandbox'' then ''https://sandbox-rest.avalara.com''
         else if environment = ''test'' then ''http://localhost:8080''
         else ''https://rest.avalara.com'');
          appName = ''MyApp'';
          appVersion = ''1.0.0'';
          clientID = appName @ ''; '' @ appVersion @ ''; Go SDK; API_VERSION''
      in \<lparr>baseURL = baseURL, credentials = '''', clientHeader = clientID\<rparr>)"

text \<open>\<^verbatim>\<open>AddCredentials\<close> assigns to the receiver; the model returns the updated client.\<close>

definition AddCredentials :: "AvalaraClient \<Rightarrow> string \<Rightarrow> string \<Rightarrow> AvalaraClient" where
  "AddCredentials c username password =
     c\<lparr>credentials := EncodeToString (username @ '':'' @ password)\<rparr>"

subsection \<open>URLs, query values and their encoding (net/url)\<close>

text \<open>
  A parsed URL: \<open>Location\<close> stands for every component in front of the query (scheme,
  authority and path), which the client never touches; \<open>RawQuery\<close> is the encoded query
  without the question mark.
\<close>

record URL =
  Location :: string
  RawQuery :: string

text \<open>\<^verbatim>\<open>url.Values\<close> is a map from a key to a list of values, kept as an association
  list that is read through \<^const>\<open>map_of\<close>.\<close>

type_synonym Values = "(string \<times> string list) list"

fun Values_Set :: "Values \<Rightarrow> string \<Rightarrow> string \<Rightarrow> Values" where
  "Values_Set [] key v = [(key, [v])]"
| "Values_Set ((k, vs) # q) key v =
     (if k = key then (key, [v]) # q else (k, vs) # Values_Set q key v)"

definition upperhex :: string where
  "upperhex = ''0123456789ABCDEF''"

text \<open>\<^verbatim>\<open>shouldEscape\<close> in the mode of a query component: letters, digits and the four
  marks stay, every other byte is escaped.\<close>

definition shouldEscape :: "char \<Rightarrow> bool" where
  "shouldEscape c =
     (if (CHR ''a'' \<le> c \<and> c \<le> CHR ''z'') \<or> (CHR ''A'' \<le> c \<and> c \<le> CHR ''Z'')
          \<or> (CHR ''0'' \<le> c \<and> c \<le> CHR ''9'') then False
      else if c \<in> set ''-_.~'' then False
      else True)"

definition QueryEscape_char :: "char \<Rightarrow> string" where
  "QueryEscape_char c =
     (if shouldEscape c then
        (if c = CHR '' '' then ''+''
         else [CHR ''%'', upperhex ! (of_char c div 16), upperhex ! (of_char c mod 16)])
      else [c])"

definition QueryEscape :: "string \<Rightarrow> string" where
  "QueryEscape s = concat (map QueryEscape_char s)"

fun join_amp :: "string list \<Rightarrow> string" where
  "join_amp [] = []"
| "join_amp [x] = x"
| "join_amp (x # y # ys) = x @ ''&'' @ join_amp (y # ys)"

text \<open>\<^verbatim>\<open>Values.Encode\<close>: the keys in sorted order, each of its values as
  \<^verbatim>\<open>key=value\<close>, both escaped, joined by \<^verbatim>\<open>&\<close>.\<close>

definition Encode :: "Values \<Rightarrow> string" where
  "Encode v =
     join_amp (concat (map
       (\<lambda>k. map (\<lambda>x. QueryEscape k @ ''='' @ QueryEscape x)
                (case map_of v k of Some vs \<Rightarrow> vs | None \<Rightarrow> []))
       (sort (remdups (map fst v)))))"

subsection \<open>Errors\<close>

record AvalaraError =
  Code :: string
  Message :: string
  Target :: string
  Details :: string

record AvalaraErrorResponse =
  Error :: AvalaraError

text \<open>
  The error values of the program: an error made by a library (with its text), an error
  made by \<^verbatim>\<open>fmt.Errorf\<close> from a text alone, one that wraps another error behind a
  prefix (\<^verbatim>\<open>%w\<close>), and a pointer to an \<^verbatim>\<open>AvalaraError\<close>. \<open>Panic\<close> is not an
  error value: it stands for a run-time panic, which ends the call.
\<close>

datatype error =
    LibError string
  | Errorf string
  | Wrapf string error
  | AvalaraErr AvalaraError
  | Panic string

definition AvalaraError_Error :: "AvalaraError \<Rightarrow> string" where
  "AvalaraError_Error e =
     ''AvalaraError: '' @ Message e @ '' (Code: '' @ Code e @ '', Target: '' @ Target e
       @ '', Details: '' @ Details e @ '')''"

subsection \<open>Response types\<close>

text \<open>The four response envelopes have the same fields and differ in the type of the
  items; \<open>nextLink\<close> is the field \<^verbatim>\<open>NextLink\<close> of the envelope.\<close>

record 'a PagedResponse =
  RecordsetCount :: int
  Value :: "'a list"
  nextLink :: string
  PageKey :: string

definition GetNextLink :: "'a PagedResponse \<Rightarrow> string" where
  "GetNextLink r = nextLink r"

record AccountModel =
  account_ID :: int
  account_Name :: string
  account_EffectiveDate :: string
  account_AccountStatusID :: string
  account_AccountTypeID :: string
  account_IsSamlEnabled :: bool
  account_IsDeleted :: bool

record UserModel =
  user_ID :: int
  user_AccountID :: int
  user_CompanyID :: int
  user_UserName :: string
  user_FirstName :: string
  user_LastName :: string
  user_Email :: string
  user_PostalCode :: string
  user_SecurityRoleID :: string
  user_PasswordStatus :: string
  user_IsActive :: bool
  user_SuppressNewUserEmail :: bool
  user_IsDeleted :: bool

record SecurityRoleModel =
  role_ID :: int
  role_Description :: string

type_synonym AccountResponse = "AccountModel PagedResponse"
type_synonym UserResponse = "UserModel PagedResponse"
type_synonym SecurityRoleResponse = "SecurityRoleModel PagedResponse"
type_synonym PermissionResponse = "string PagedResponse"

record PingResponse =
  Version :: string
  Authenticated :: bool
  AuthenticationType :: string
  AuthenticatedUserName :: string
  AuthenticatedUserID :: int
  AuthenticatedAccountID :: int
  AuthenticatedCompanyID :: int
  CRMID :: string

subsection \<open>Requests, responses and the environment\<close>

record Request =
  Method :: string
  URL :: URL
  Header :: "string \<rightharpoonup> string"

text \<open>\<open>Body\<close> is what \<^verbatim>\<open>io.ReadAll(resp.Body)\<close> gives: the bytes, or on the left the
  text of the read error.\<close>

record Response =
  StatusCode :: int
  Body :: "string + string"

text \<open>
  What the client calls and this repository does not define: the parser of net/url, the
  transport under the HTTP client, the texts of the errors the HTTP client makes, and
  the decoder of encoding/json at each target type. A result on the left is the text of
  the error the library returns.
\<close>

record Env =
  url_Parse :: "string \<Rightarrow> string + URL"
  Query :: "URL \<Rightarrow> Values"
  NewRequest_error :: "string \<Rightarrow> URL \<Rightarrow> string option"
  RoundTrip :: "Request \<Rightarrow> string + Response"
  url_Error :: "Request \<Rightarrow> string \<Rightarrow> string"
  status_Error :: "Response \<Rightarrow> string"
  ValidString :: "string \<Rightarrow> bool"
  Unmarshal_AvalaraErrorResponse :: "string \<Rightarrow> string + AvalaraErrorResponse"
  Unmarshal_SecurityRoleResponse :: "string \<Rightarrow> string + SecurityRoleResponse"
  Unmarshal_AccountResponse :: "string \<Rightarrow> string + AccountResponse"
  Unmarshal_UserResponse :: "string \<Rightarrow> string + UserResponse"
  Unmarshal_PermissionResponse :: "string \<Rightarrow> string + PermissionResponse"
  Unmarshal_PingResponse :: "string \<Rightarrow> string + PingResponse"

text \<open>
  \<^verbatim>\<open>BaseHttpClient.Do\<close> of the SDK, which the client calls as \<^verbatim>\<open>c.httpClient.Do\<close>, as
  far as \<^verbatim>\<open>get\<close> depends on it. It sends the request through the transport. An error
  of the transport comes back as the error of the HTTP client that wraps it; a response
  whose status code is outside [200,300) comes back as an error as well, the status
  error of the SDK; only a response with a success status is handed to the caller
  without an error.
\<close>

definition Do :: "Env \<Rightarrow> Request \<Rightarrow> string + Response" where
  "Do env req =
     (case RoundTrip env req of
        Inl err \<Rightarrow> Inl (url_Error env req err)
      | Inr resp \<Rightarrow>
          if StatusCode resp < 200 \<or> StatusCode resp \<ge> 300
          then Inl (status_Error env resp)
          else Inr resp)"

text \<open>\<^verbatim>\<open>BaseHttpClient.NewRequest\<close> without options: a request for the method and the
  URL, with no header yet.\<close>

definition NewRequest :: "Env \<Rightarrow> string \<Rightarrow> URL \<Rightarrow> string + Request" where
  "NewRequest env method u =
     (case NewRequest_error env method u of
        Some err \<Rightarrow> Inl err
      | None \<Rightarrow> Inr \<lparr>Method = method, URL = u, Header = Map.empty\<rparr>)"

subsection \<open>The transport wrapper \<^verbatim>\<open>get\<close>\<close>

text \<open>
  \<open>options\<close> is the value the pointer \<^verbatim>\<open>options\<close> refers to, \<open>None\<close> for
  \<^verbatim>\<open>nil\<close>; \<^verbatim>\<open>get\<close> only reads it. The function is given in three parts:
  the URL, the request with its headers, and the whole call.
\<close>

definition set_options :: "PaginationOptions \<Rightarrow> Values \<Rightarrow> Values" where
  "set_options options query0 =
     (let query1 = (if Top options > 0
                    then Values_Set query0 ''$top'' (Itoa (Top options)) else query0);
          query2 = (if Skip options > 0
                    then Values_Set query1 ''$skip'' (Itoa (Skip options)) else query1);
          query3 = (if OrderBy options \<noteq> []
                    then Values_Set query2 ''$orderby'' (OrderBy options) else query2);
          query4 = (if Filter options \<noteq> []
                    then Values_Set query3 ''$filter'' (Filter options) else query3)
      in query4)"

definition get_URL ::
  "Env \<Rightarrow> AvalaraClient \<Rightarrow> string \<Rightarrow> PaginationOptions option \<Rightarrow> error + URL" where
  "get_URL env c endpoint options =
     (case (case options of
              Some opts \<Rightarrow>
                if NextLink opts \<noteq> [] then url_Parse env (NextLink opts)
                else url_Parse env (baseURL c @ endpoint)
            | None \<Rightarrow> url_Parse env (baseURL c @ endpoint)) of
        Inl err \<Rightarrow> Inl (Wrapf ''error parsing URL: '' (LibError err))
      | Inr u \<Rightarrow>
          (case options of
             Some opts \<Rightarrow>
               if NextLink opts = []
               then Inr (u\<lparr>RawQuery := Encode (set_options opts (Query env u))\<rparr>)
               else Inr u
           | None \<Rightarrow> Inr u))"

definition get_request ::
  "Env \<Rightarrow> AvalaraClient \<Rightarrow> string \<Rightarrow> PaginationOptions option \<Rightarrow> error + Request" where
  "get_request env c endpoint options =
     (case get_URL env c endpoint options of
        Inl err \<Rightarrow> Inl err
      | Inr u \<Rightarrow>
          (case NewRequest env ''GET'' u of
             Inl err \<Rightarrow> Inl (Wrapf ''error creating request: '' (LibError err))
           | Inr req \<Rightarrow>
               Inr (req\<lparr>Header := (Header req)
                     (''Authorization'' \<mapsto> ''Basic '' @ credentials c,
                      ''X-Avalara-Client'' \<mapsto> clientHeader c,
                      ''Content-Type'' \<mapsto> ''application/json'',
                      ''Accept'' \<mapsto> ''application/json'')\<rparr>)))"

definition get ::
  "Env \<Rightarrow> AvalaraClient \<Rightarrow> string \<Rightarrow> PaginationOptions option
     \<Rightarrow> (string \<Rightarrow> string + 'r) \<Rightarrow> error + 'r" where
  "get env c endpoint options Unmarshal_result =
     (case get_request env c endpoint options of
        Inl err \<Rightarrow> Inl err
      | Inr req \<Rightarrow>
          (case Do env req of
             Inl err \<Rightarrow> Inl (Wrapf ''error sending request: '' (LibError err))
           | Inr resp \<Rightarrow>
               (case Body resp of
                  Inl err \<Rightarrow> Inl (Wrapf ''failed to read response body: '' (LibError err))
                | Inr bodyBytes \<Rightarrow>
                    if StatusCode resp < 200 \<or> StatusCode resp \<ge> 300 then
                      (case Unmarshal_AvalaraErrorResponse env bodyBytes of
                         Inr errorResp \<Rightarrow>
                           if Code (Error errorResp) \<noteq> []
                           then Inl (AvalaraErr (Error errorResp))
                           else Inl (Errorf (''unexpected status code: ''
                                             @ Itoa (StatusCode resp)))
                       | Inl err \<Rightarrow>
                           Inl (Errorf (''unexpected status code: ''
                                        @ Itoa (StatusCode resp))))
                    else
                      (case Unmarshal_result bodyBytes of
                         Inl err \<Rightarrow>
                           Inl (AvalaraErr
                             \<lparr>Code = ''FormatException'',
                              Message = ''The server returned the response in an unexpected format'',
                              Target = '''',
                              Details = err\<rparr>)
                       | Inr result \<Rightarrow> Inr result))))"

subsection \<open>Pagination options behind a pointer\<close>

text \<open>
  The accessors receive and return a pointer to a \<^verbatim>\<open>PaginationOptions\<close> and assign to
  the object behind it, so the objects live in a store: every address holds an object,
  \<open>fresh\<close> is the next address \<^verbatim>\<open>&PaginationOptions{...}\<close> allocates. A pointer is an
  address, or \<open>None\<close> for \<^verbatim>\<open>nil\<close>.
\<close>

record Heap =
  cells :: "nat \<Rightarrow> PaginationOptions"
  fresh :: nat

definition zero_PaginationOptions :: PaginationOptions where
  "zero_PaginationOptions = \<lparr>Top = 0, Skip = 0, OrderBy = [], Filter = [], NextLink = []\<rparr>"

definition empty_Heap :: Heap where
  "empty_Heap = \<lparr>cells = (\<lambda>a. zero_PaginationOptions), fresh = 0\<rparr>"

definition new :: "Heap \<Rightarrow> PaginationOptions \<Rightarrow> Heap \<times> nat" where
  "new h v = (\<lparr>cells = (cells h)(fresh h := v), fresh = Suc (fresh h)\<rparr>, fresh h)"

definition deref :: "Heap \<Rightarrow> nat option \<Rightarrow> PaginationOptions option" where
  "deref h p = map_option (cells h) p"

definition assign_NextLink :: "Heap \<Rightarrow> nat \<Rightarrow> string \<Rightarrow> Heap" where
  "assign_NextLink h a v = h\<lparr>cells := (cells h)(a := (cells h a)\<lparr>NextLink := v\<rparr>)\<rparr>"

definition updatePaginationOptions ::
  "Heap \<Rightarrow> nat option \<Rightarrow> 'a PagedResponse \<Rightarrow> Heap \<times> nat option" where
  "updatePaginationOptions h options response =
     (case (case options of
              None \<Rightarrow> new h zero_PaginationOptions
            | Some a \<Rightarrow> (h, a)) of
        (h1, a) \<Rightarrow> (assign_NextLink h1 a (GetNextLink response), Some a))"

subsection \<open>The accessors\<close>

text \<open>Each accessor returns the heap after the call and Go's three results: the response
  (\<open>None\<close> for \<^verbatim>\<open>nil\<close>), the options pointer and the error (\<open>None\<close> for \<^verbatim>\<open>nil\<close>).\<close>

definition GetUserRoles ::
  "Env \<Rightarrow> AvalaraClient \<Rightarrow> Heap \<Rightarrow> nat option
     \<Rightarrow> Heap \<times> SecurityRoleResponse option \<times> nat option \<times> error option" where
  "GetUserRoles env c h options =
     (case get env c ''/api/v2/definitions/securityroles'' (deref h options)
             (Unmarshal_SecurityRoleResponse env) of
        Inl err \<Rightarrow> (h, None, options, Some err)
      | Inr result \<Rightarrow>
          (case updatePaginationOptions h options result of
             (h', options') \<Rightarrow> (h', Some result, options', None)))"

definition GetAccounts ::
  "Env \<Rightarrow> AvalaraClient \<Rightarrow> Heap \<Rightarrow> nat option
     \<Rightarrow> Heap \<times> AccountResponse option \<times> nat option \<times> error option" where
  "GetAccounts env c h options =
     (case get env c ''/api/v2/accounts'' (deref h options)
             (Unmarshal_AccountResponse env) of
        Inl err \<Rightarrow> (h, None, options, Some err)
      | Inr result \<Rightarrow>
          (case updatePaginationOptions h options result of
             (h', options') \<Rightarrow> (h', Some result, options', None)))"

definition GetUsers ::
  "Env \<Rightarrow> AvalaraClient \<Rightarrow> Heap \<Rightarrow> nat option
     \<Rightarrow> Heap \<times> UserResponse option \<times> nat option \<times> error option" where
  "GetUsers env c h options =
     (case get env c ''/api/v2/users'' (deref h options)
             (Unmarshal_UserResponse env) of
        Inl err \<Rightarrow> (h, None, options, Some err)
      | Inr result \<Rightarrow>
          (case updatePaginationOptions h options result of
             (h', options') \<Rightarrow> (h', Some result, options', None)))"

definition GetPermissions ::
  "Env \<Rightarrow> AvalaraClient \<Rightarrow> Heap \<Rightarrow> nat option
     \<Rightarrow> Heap \<times> PermissionResponse option \<times> nat option \<times> error option" where
  "GetPermissions env c h options =
     (case get env c ''/api/v2/definitions/permissions'' (deref h options)
             (Unmarshal_PermissionResponse env) of
        Inl err \<Rightarrow> (h, None, options, Some err)
      | Inr result \<Rightarrow>
          (case updatePaginationOptions h options result of
             (h', options') \<Rightarrow> (h', Some result, options', None)))"

definition Ping :: "Env \<Rightarrow> AvalaraClient \<Rightarrow> error + PingResponse" where
  "Ping env c =
     (case get env c ''/api/v2/utilities/ping'' None (Unmarshal_PingResponse env) of
        Inl err \<Rightarrow> Inl err
      | Inr result \<Rightarrow> Inr result)"

section \<open>The connector (package connector)\<close>

subsection \<open>Validate\<close>

text \<open>The result is the error \<^verbatim>\<open>Validate\<close> returns, \<open>None\<close> for \<^verbatim>\<open>nil\<close>; its
  annotations are always \<^verbatim>\<open>nil\<close>.\<close>

definition Validate :: "Env \<Rightarrow> AvalaraClient \<Rightarrow> error option" where
  "Validate env c =
     (case Ping env c of
        Inl err \<Rightarrow> Some (Wrapf ''failed to validate Avalara connection: '' err)
      | Inr pingResponse \<Rightarrow>
          if \<not> Authenticated pingResponse
          then Some (Errorf ''Avalara authentication failed'')
          else None)"

subsection \<open>Resources, entitlements and grants of the SDK\<close>

datatype trait = TRAIT_USER | TRAIT_ROLE

record ResourceType =
  rt_Id :: string
  rt_DisplayName :: string
  rt_Description :: string
  rt_Traits :: "trait list"

text \<open>The resource types of the connector; the SDK functions used here read only the
  id of a resource type (the annotations of the user type are left out).\<close>

definition userResourceType :: ResourceType where
  "userResourceType =
     \<lparr>rt_Id = ''user'', rt_DisplayName = ''User'', rt_Description = '''',
      rt_Traits = [TRAIT_USER]\<rparr>"

definition roleResourceType :: ResourceType where
  "roleResourceType =
     \<lparr>rt_Id = ''role'', rt_DisplayName = ''Role'',
      rt_Description = ''Represents an Avalara security role'',
      rt_Traits = [TRAIT_ROLE]\<rparr>"

definition RoleMemberEntitlement :: string where
  "RoleMemberEntitlement = ''member''"

record ResourceId =
  ResourceType :: string
  Resource :: string

text \<open>A profile is a \<^verbatim>\<open>structpb.Struct\<close>: fields with typed values.\<close>

datatype pvalue = StringValue string | NumberValue int | BoolValue bool | NullValue

type_synonym Struct = "(string \<times> pvalue) list"

text \<open>The annotations of a resource: a role trait with its profile (\<open>None\<close> for a
  \<^verbatim>\<open>nil\<close> profile), or a message of another type.\<close>

datatype annotation = RoleTrait "Struct option" | OtherAnnotation string

record Resource =
  res_Id :: ResourceId
  res_ParentResourceId :: "ResourceId option"
  res_DisplayName :: string
  res_Annotations :: "annotation list"

record Entitlement =
  ent_Id :: string
  ent_Resource :: Resource

record Grant =
  grant_Entitlement :: Entitlement
  grant_Principal :: Resource
  grant_Id :: string

record Token =
  Token :: string
  Size :: int

text \<open>\<^verbatim>\<open>rs.NewResourceID\<close> with an object id that is a string: it cannot fail.\<close>

definition NewResourceID :: "ResourceType \<Rightarrow> string \<Rightarrow> error + ResourceId" where
  "NewResourceID resourceType objectID =
     Inr \<lparr>ResourceType = rt_Id resourceType, Resource = objectID\<rparr>"

text \<open>\<^verbatim>\<open>structpb.NewStruct\<close> refuses a key or a string that is not valid UTF-8.\<close>

definition NewStruct :: "Env \<Rightarrow> Struct \<Rightarrow> error + Struct" where
  "NewStruct env v =
     (if list_all (\<lambda>(k, x). ValidString env k \<and>
                     (case x of StringValue s \<Rightarrow> ValidString env s | _ \<Rightarrow> True)) v
      then Inr v
      else Inl (LibError ''proto: invalid UTF-8 in string''))"

text \<open>\<^verbatim>\<open>rs.NewRoleResource\<close> with the options \<^verbatim>\<open>WithRoleProfile\<close> and
  \<^verbatim>\<open>WithParentResourceID\<close>: the resource carries one annotation, its role trait.\<close>

definition NewRoleResource ::
  "Env \<Rightarrow> string \<Rightarrow> ResourceType \<Rightarrow> string \<Rightarrow> Struct \<Rightarrow> ResourceId option
     \<Rightarrow> error + Resource" where
  "NewRoleResource env name resourceType objectID profile parentResourceID =
     (case NewResourceID resourceType objectID of
        Inl err \<Rightarrow> Inl err
      | Inr rID \<Rightarrow>
          (case NewStruct env profile of
             Inl err \<Rightarrow> Inl err
           | Inr p \<Rightarrow>
               Inr \<lparr>res_Id = rID, res_ParentResourceId = parentResourceID,
                    res_DisplayName = name, res_Annotations = [RoleTrait (Some p)]\<rparr>))"

fun Pick_RoleTrait :: "annotation list \<Rightarrow> Struct option option" where
  "Pick_RoleTrait [] = None"
| "Pick_RoleTrait (RoleTrait p # annos) = Some p"
| "Pick_RoleTrait (OtherAnnotation m # annos) = Pick_RoleTrait annos"

definition GetRoleTrait :: "Resource \<Rightarrow> error + Struct option" where
  "GetRoleTrait resource =
     (case Pick_RoleTrait (res_Annotations resource) of
        None \<Rightarrow> Inl (Errorf ''role trait was not found on resource'')
      | Some profile \<Rightarrow> Inr profile)"

definition GetProfileStringValue :: "Struct option \<Rightarrow> string \<Rightarrow> string \<times> bool" where
  "GetProfileStringValue profile k =
     (case profile of
        None \<Rightarrow> ([], False)
      | Some flds \<Rightarrow>
          (case map_of flds k of
             Some (StringValue s) \<Rightarrow> (s, True)
           | _ \<Rightarrow> ([], False)))"

definition NewEntitlementID :: "Resource \<Rightarrow> string \<Rightarrow> string" where
  "NewEntitlementID resource permission =
     ResourceType (res_Id resource) @ '':'' @ Resource (res_Id resource) @ '':'' @ permission"

text \<open>\<^verbatim>\<open>grant.NewGrant\<close> with a resource id as principal.\<close>

definition NewGrant :: "Resource \<Rightarrow> string \<Rightarrow> ResourceId \<Rightarrow> Grant" where
  "NewGrant resource entitlementName principalID =
     (let entitlement = \<lparr>ent_Id = NewEntitlementID resource entitlementName,
                         ent_Resource = resource\<rparr>
      in \<lparr>grant_Entitlement = entitlement,
          grant_Principal = \<lparr>res_Id = principalID, res_ParentResourceId = None,
                             res_DisplayName = [], res_Annotations = []\<rparr>,
          grant_Id = ent_Id entitlement @ '':'' @ ResourceType principalID @ '':''
                       @ Resource principalID\<rparr>)"

subsection \<open>The role builder\<close>

text \<open>
  \<^verbatim>\<open>List\<close> and \<^verbatim>\<open>Grants\<close> begin alike: a new options object with \<^verbatim>\<open>Top: 100\<close>,
  whose \<^verbatim>\<open>NextLink\<close> becomes the page token when there is a non-empty one. The
  object is allocated by the call and no pointer to it leaves the call, so the heap of
  the call starts empty.
\<close>

definition page_options :: "Token option \<Rightarrow> Heap \<times> nat" where
  "page_options pToken =
     (case new empty_Heap \<lparr>Top = 100, Skip = 0, OrderBy = [], Filter = [], NextLink = []\<rparr> of
        (h, options) \<Rightarrow>
          (case pToken of
             Some t \<Rightarrow>
               if Token t \<noteq> [] then (assign_NextLink h options (Token t), options)
               else (h, options)
           | None \<Rightarrow> (h, options)))"

definition next_page_token :: "Heap \<Rightarrow> nat option \<Rightarrow> string" where
  "next_page_token h nextOptions =
     (case nextOptions of
        Some a \<Rightarrow> if NextLink (cells h a) \<noteq> [] then NextLink (cells h a) else []
      | None \<Rightarrow> [])"

text \<open>The loop over \<^verbatim>\<open>roles.Value\<close>; \<open>rv\<close> is the slice built so far.\<close>

fun List_loop ::
  "Env \<Rightarrow> ResourceId option \<Rightarrow> SecurityRoleModel list \<Rightarrow> Resource list
     \<Rightarrow> error + Resource list" where
  "List_loop env parentResourceID [] rv = Inr rv"
| "List_loop env parentResourceID (role # roles) rv =
     (case NewRoleResource env (role_Description role) roleResourceType
             (Itoa (role_ID role))
             [(''id'', StringValue (Itoa (role_ID role))),
              (''description'', StringValue (role_Description role))]
             parentResourceID of
        Inl err \<Rightarrow> Inl (Wrapf ''avalara-connector: failed to create role resource: '' err)
      | Inr resource \<Rightarrow> List_loop env parentResourceID roles (rv @ [resource]))"

definition List ::
  "Env \<Rightarrow> AvalaraClient \<Rightarrow> ResourceId option \<Rightarrow> Token option
     \<Rightarrow> error + Resource list \<times> string" where
  "List env c parentResourceID pToken =
     (case page_options pToken of
        (h, options) \<Rightarrow>
          (case GetUserRoles env c h (Some options) of
             (h', roles, nextOptions, Some err) \<Rightarrow>
               Inl (Wrapf ''avalara-connector: failed to list roles: '' err)
           | (h', None, nextOptions, None) \<Rightarrow>
               Inl (Panic ''invalid memory address or nil pointer dereference'')
           | (h', Some roles, nextOptions, None) \<Rightarrow>
               (case List_loop env parentResourceID (Value roles) [] of
                  Inl err \<Rightarrow> Inl err
                | Inr rv \<Rightarrow> Inr (rv, next_page_token h' nextOptions))))"

text \<open>The loop over \<^verbatim>\<open>users.Value\<close>.\<close>

fun Grants_loop ::
  "Resource \<Rightarrow> string \<Rightarrow> UserModel list \<Rightarrow> Grant list \<Rightarrow> error + Grant list" where
  "Grants_loop resource roleDescription [] rv = Inr rv"
| "Grants_loop resource roleDescription (user # users) rv =
     (if user_SecurityRoleID user = roleDescription then
        (case NewResourceID userResourceType (Itoa (user_ID user)) of
           Inl err \<Rightarrow>
             Inl (Wrapf ''avalara-connector: failed to create user resource id: '' err)
         | Inr userID \<Rightarrow>
             Grants_loop resource roleDescription users
               (rv @ [NewGrant resource RoleMemberEntitlement userID]))
      else Grants_loop resource roleDescription users rv)"

definition Grants ::
  "Env \<Rightarrow> AvalaraClient \<Rightarrow> Resource \<Rightarrow> Token option \<Rightarrow> error + Grant list \<times> string" where
  "Grants env c resource pToken =
     (case GetRoleTrait resource of
        Inl err \<Rightarrow> Inl (Wrapf ''avalara-connector: failed to get role trait: '' err)
      | Inr profile \<Rightarrow>
          (case GetProfileStringValue profile ''description'' of
             (roleDescription, ok) \<Rightarrow>
               if \<not> ok then
                 Inl (Errorf ''avalara-connector: failed to get role description from profile'')
               else
                 (case page_options pToken of
                    (h, options) \<Rightarrow>
                      (case GetUsers env c h (Some options) of
                         (h', users, nextOptions, Some err) \<Rightarrow>
                           Inl (Wrapf ''avalara-connector: failed to list users: '' err)
                       | (h', None, nextOptions, None) \<Rightarrow>
                           Inl (Panic ''invalid memory address or nil pointer dereference'')
                       | (h', Some users, nextOptions, None) \<Rightarrow>
                           (case Grants_loop resource roleDescription (Value users) [] of
                              Inl err \<Rightarrow> Inl err
                            | Inr rv \<Rightarrow> Inr (rv, next_page_token h' nextOptions))))))"

section \<open>A test double of the environment\<close>

text \<open>
  The tests of the client replace the transport under the HTTP client by a round tripper
  that answers every request with one prepared response or error. The examples below do
  the same,
  and fix the library functions on the inputs the examples use: a URL is split at its
  first question mark, the URLs built from a base URL and an endpoint have no query of
  their own, strings of ASCII characters are valid UTF-8, and each decoder knows the
  bodies of the examples and reports any other body as a decode error.
\<close>

definition test_Parse :: "string \<Rightarrow> string + URL" where
  "test_Parse rawURL =
     Inr \<lparr>Location = takeWhile (\<lambda>c. c \<noteq> CHR ''?'') rawURL,
          RawQuery = drop 1 (dropWhile (\<lambda>c. c \<noteq> CHR ''?'') rawURL)\<rparr>"

definition testRoundTripper ::
  "Response \<Rightarrow> string option \<Rightarrow> Request \<Rightarrow> string + Response" where
  "testRoundTripper response err req =
     (case err of Some e \<Rightarrow> Inl e | None \<Rightarrow> Inr response)"

definition error_body :: string where
  \<open>error_body = ''{"error":{"code":"AuthenticationException","message":"bad creds"}}''\<close>

definition roles_next_link :: string where
  "roles_next_link = ''https://rest.avatax.com/api/v2/definitions/securityroles?$skip=2&$top=2''"

definition roles_page1_body :: string where
  \<open>roles_page1_body =
     ''{"value":[{"id":1,"description":"SystemAdmin"},{"id":2,"description":"AccountAdmin"}],''
     @ ''"@nextLink":"https://rest.avatax.com/api/v2/definitions/securityroles?$skip=2&$top=2"}''\<close>

definition roles_page2_body :: string where
  \<open>roles_page2_body =
     ''{"value":[{"id":3,"description":"CompanyAdmin"},{"id":4,"description":"CompanyUser"}]}''\<close>

definition users_body :: string where
  \<open>users_body =
     ''{"value":[{"id":1,"securityRoleId":"AccountUser"},{"id":2,"securityRoleId":"AccountAdmin"}]}''\<close>

definition permissions_body :: string where
  \<open>permissions_body = ''{"value":["AccountSvc","CompanySvc"],"@nextLink":"https://rest.avatax.com/next"}''\<close>

definition accounts_body :: string where
  \<open>accounts_body = ''{"value":[],"@nextLink":"https://rest.avatax.com/api/v2/accounts?$skip=1"}''\<close>

definition ping_ok_body :: string where
  \<open>ping_ok_body = ''{"authenticated":true}''\<close>

definition ping_anonymous_body :: string where
  \<open>ping_anonymous_body = ''{"authenticated":false}''\<close>

definition decode_failure :: string where
  "decode_failure = ''invalid character '<' looking for beginning of value''"

definition test_user :: "int \<Rightarrow> string \<Rightarrow> UserModel" where
  "test_user i r =
     \<lparr>user_ID = i, user_AccountID = 0, user_CompanyID = 0, user_UserName = [],
      user_FirstName = [], user_LastName = [], user_Email = [], user_PostalCode = [],
      user_SecurityRoleID = r, user_PasswordStatus = [], user_IsActive = False,
      user_SuppressNewUserEmail = False, user_IsDeleted = False\<rparr>"

definition test_ping :: "bool \<Rightarrow> PingResponse" where
  "test_ping a =
     \<lparr>Version = [], Authenticated = a, AuthenticationType = [],
      AuthenticatedUserName = [], AuthenticatedUserID = 0, AuthenticatedAccountID = 0,
      AuthenticatedCompanyID = 0, CRMID = []\<rparr>"

definition test_Unmarshal_error :: "string \<Rightarrow> string + AvalaraErrorResponse" where
  "test_Unmarshal_error b =
     (if b = error_body
      then Inr \<lparr>Error = \<lparr>Code = ''AuthenticationException'', Message = ''bad creds'',
                          Target = [], Details = []\<rparr>\<rparr>
      else Inl decode_failure)"

definition test_Unmarshal_roles :: "string \<Rightarrow> string + SecurityRoleResponse" where
  "test_Unmarshal_roles b =
     (if b = roles_page1_body
      then Inr \<lparr>RecordsetCount = 0,
                Value = [\<lparr>role_ID = 1, role_Description = ''SystemAdmin''\<rparr>,
                         \<lparr>role_ID = 2, role_Description = ''AccountAdmin''\<rparr>],
                nextLink = roles_next_link, PageKey = []\<rparr>
      else if b = roles_page2_body
      then Inr \<lparr>RecordsetCount = 0,
                Value = [\<lparr>role_ID = 3, role_Description = ''CompanyAdmin''\<rparr>,
                         \<lparr>role_ID = 4, role_Description = ''CompanyUser''\<rparr>],
                nextLink = [], PageKey = []\<rparr>
      else Inl decode_failure)"

definition test_Unmarshal_accounts :: "string \<Rightarrow> string + AccountResponse" where
  "test_Unmarshal_accounts b =
     (if b = accounts_body
      then Inr \<lparr>RecordsetCount = 0, Value = [],
                nextLink = ''https://rest.avatax.com/api/v2/accounts?$skip=1'', PageKey = []\<rparr>
      else Inl decode_failure)"

definition test_Unmarshal_users :: "string \<Rightarrow> string + UserResponse" where
  "test_Unmarshal_users b =
     (if b = users_body
      then Inr \<lparr>RecordsetCount = 0,
                Value = [test_user 1 ''AccountUser'', test_user 2 ''AccountAdmin''],
                nextLink = [], PageKey = []\<rparr>
      else Inl decode_failure)"

definition test_Unmarshal_permissions :: "string \<Rightarrow> string + PermissionResponse" where
  "test_Unmarshal_permissions b =
     (if b = permissions_body
      then Inr \<lparr>RecordsetCount = 0, Value = [''AccountSvc'', ''CompanySvc''],
                nextLink = ''https://rest.avatax.com/next'', PageKey = []\<rparr>
      else Inl decode_failure)"

definition test_Unmarshal_ping :: "string \<Rightarrow> string + PingResponse" where
  "test_Unmarshal_ping b =
     (if b = ping_ok_body then Inr (test_ping True)
      else if b = ping_anonymous_body then Inr (test_ping False)
      else Inl decode_failure)"

text \<open>The texts of the errors of the HTTP client in the examples: a transport error
  behind the method and the quoted URL, as \<^verbatim>\<open>url.Error\<close> prints it, and a short text
  with the status code in place of the status error of the SDK.\<close>

definition test_url_Error :: "Request \<Rightarrow> string \<Rightarrow> string" where
  \<open>test_url_Error req err =
     ''Get "'' @ Location (URL req)
       @ (if RawQuery (URL req) = [] then [] else ''?'' @ RawQuery (URL req))
       @ ''": '' @ err\<close>

definition test_status_Error :: "Response \<Rightarrow> string" where
  "test_status_Error resp = ''status '' @ Itoa (StatusCode resp)"

definition test_env :: "(Request \<Rightarrow> string + Response) \<Rightarrow> Env" where
  "test_env roundTrip =
     \<lparr>url_Parse = test_Parse,
      Query = (\<lambda>u. []),
      NewRequest_error = (\<lambda>method u. None),
      RoundTrip = roundTrip,
      url_Error = test_url_Error,
      status_Error = test_status_Error,
      ValidString = list_all (\<lambda>c. c < CHR 0x80),
      Unmarshal_AvalaraErrorResponse = test_Unmarshal_error,
      Unmarshal_SecurityRoleResponse = test_Unmarshal_roles,
      Unmarshal_AccountResponse = test_Unmarshal_accounts,
      Unmarshal_UserResponse = test_Unmarshal_users,
      Unmarshal_PermissionResponse = test_Unmarshal_permissions,
      Unmarshal_PingResponse = test_Unmarshal_ping\<rparr>"

definition test_client :: AvalaraClient where
  "test_client = AddCredentials (NewAvalaraClient []) ''testuser'' ''testpass''"

text \<open>A server with two pages of roles: the first page answers the request of a first
  call, the second one the request for the link of the first page.\<close>

definition roles_server :: "Request \<Rightarrow> string + Response" where
  "roles_server req =
     (if URL req = \<lparr>Location = ''https://rest.avatax.com/api/v2/definitions/securityroles'',
                    RawQuery = ''%24top=100''\<rparr>
      then Inr \<lparr>StatusCode = 200, Body = Inr roles_page1_body\<rparr>
      else if URL req = \<lparr>Location = ''https://rest.avatax.com/api/v2/definitions/securityroles'',
                         RawQuery = ''$skip=2&$top=2''\<rparr>
      then Inr \<lparr>StatusCode = 200, Body = Inr roles_page2_body\<rparr>
      else Inr \<lparr>StatusCode = 404, Body = Inr []\<rparr>)"

definition test_options :: PaginationOptions where
  "test_options = \<lparr>Top = 2, Skip = 0, OrderBy = [], Filter = [], NextLink = []\<rparr>"

definition test_heap :: Heap where
  "test_heap = fst (new empty_Heap test_options)"

definition test_role :: Resource where
  "test_role =
     \<lparr>res_Id = \<lparr>ResourceType = ''role'', Resource = ''5''\<rparr>,
      res_ParentResourceId = None,
      res_DisplayName = ''AccountUser'',
      res_Annotations =
        [RoleTrait (Some [(''id'', StringValue ''5''),
                          (''description'', StringValue ''AccountUser'')])]\<rparr>"

section \<open>Properties\<close>

subsection \<open>The base URL of a new client\<close>

lemma HasPrefix_http_selectors:
  "\<not> HasPrefix (ToLower ''sandbox'') ''http''"
  "\<not> HasPrefix (ToLower ''test'') ''http''"
  by (simp_all add: HasPrefix_def ToLower_def ToLower_char_def)

lemma HasPrefix_http_iff:
  "HasPrefix (ToLower environment) ''http''
     = (\<exists>a b c d rest. environment = a # b # c # d # rest
          \<and> a \<in> {CHR ''h'', CHR ''H''} \<and> b \<in> {CHR ''t'', CHR ''T''}
          \<and> c \<in> {CHR ''t'', CHR ''T''} \<and> d \<in> {CHR ''p'', CHR ''P''})"
proof -
  have h: "ToLower_char x = CHR ''h'' \<longleftrightarrow> x \<in> {CHR ''h'', CHR ''H''}" for x
    by (auto simp add: ToLower_char_def split: if_splits)
  have t: "ToLower_char x = CHR ''t'' \<longleftrightarrow> x \<in> {CHR ''t'', CHR ''T''}" for x
    by (auto simp add: ToLower_char_def split: if_splits)
  have p: "ToLower_char x = CHR ''p'' \<longleftrightarrow> x \<in> {CHR ''p'', CHR ''P''}" for x
    by (auto simp add: ToLower_char_def split: if_splits)
  show ?thesis
  proof (cases environment)
    case Nil
    then show ?thesis by (simp add: HasPrefix_def ToLower_def)
  next
    case (Cons a e1)
    note c1 = this
    show ?thesis
    proof (cases e1)
      case Nil
      with c1 show ?thesis by (simp add: HasPrefix_def ToLower_def)
    next
      case (Cons b e2)
      note c2 = this
      show ?thesis
      proof (cases e2)
        case Nil
        with c1 c2 show ?thesis by (simp add: HasPrefix_def ToLower_def)
      next
        case (Cons c e3)
        note c3 = this
        show ?thesis
        proof (cases e3)
          case Nil
          with c1 c2 c3 show ?thesis by (simp add: HasPrefix_def ToLower_def)
        next
          case (Cons d rest)
          with c1 c2 c3 show ?thesis
            using h [of a] t [of b] t [of c] p [of d]
            by (simp add: HasPrefix_def ToLower_def del: insert_iff)
        qed
      qed
    qed
  qed
qed

text \<open>
  C2, as stated: for every environment string the base URL of the new client is one of
  the three fixed URLs. The constructor first looks for a selector that begins with
  \<^verbatim>\<open>http\<close> in any letter case and takes it as the base URL itself, so the statement
  fails for such a selector.
\<close>

theorem NewAvalaraClient_baseURL_counterexample:
  "baseURL (NewAvalaraClient ''http://localhost:9090'')
     \<notin> {ProductionBaseURL, SandboxBaseURL, TestBaseURL}"
  by (simp add: NewAvalaraClient_def HasPrefix_def ToLower_def ToLower_char_def
      ProductionBaseURL_def SandboxBaseURL_def TestBaseURL_def)

text \<open>
  C2, amended: for every environment string that does not begin with \<^verbatim>\<open>http\<close> (in
  any letter case) the base URL is one of the three fixed URLs, the production URL
  unless the selector is \<^verbatim>\<open>sandbox\<close> or \<^verbatim>\<open>test\<close>; \<^verbatim>\<open>sandbox\<close> gives the sandbox
  URL and \<^verbatim>\<open>test\<close> the local test URL; a selector that begins with \<^verbatim>\<open>http\<close> is the
  base URL itself. The older constructor always gives one of its own three URLs.
\<close>

theorem NewAvalaraClient_baseURL:
  "(\<not> HasPrefix (ToLower environment) ''http'' \<longrightarrow>
      baseURL (NewAvalaraClient environment) \<in> {ProductionBaseURL, SandboxBaseURL, TestBaseURL}
      \<and> (environment \<noteq> ''sandbox'' \<and> environment \<noteq> ''test'' \<longrightarrow>
            baseURL (NewAvalaraClient environment) = ProductionBaseURL))
   \<and> (environment = ''sandbox'' \<longrightarrow> baseURL (NewAvalaraClient environment) = SandboxBaseURL)
   \<and> (environment = ''test'' \<longrightarrow> baseURL (NewAvalaraClient environment) = TestBaseURL)
   \<and> (HasPrefix (ToLower environment) ''http'' \<longrightarrow>
        baseURL (NewAvalaraClient environment) = environment)
   \<and> baseURL (NewAvalaraClient_v0 environment)
        \<in> {''https://rest.avalara.com'', ''https://sandbox-rest.avalara.com'',
            ''http://localhost:8080''}"
  using HasPrefix_http_selectors
  by (auto simp add: NewAvalaraClient_def NewAvalaraClient_v0_def Let_def)

theorem NewAvalaraClient_baseURL_witness:
  "baseURL (NewAvalaraClient ''production'') = ProductionBaseURL
   \<and> baseURL (NewAvalaraClient []) = ProductionBaseURL
   \<and> baseURL (NewAvalaraClient ''sandbox'') = SandboxBaseURL
   \<and> baseURL (NewAvalaraClient ''test'') = TestBaseURL
   \<and> baseURL (NewAvalaraClient ''HTTP://localhost:9090'') = ''HTTP://localhost:9090''"
  using NewAvalaraClient_baseURL [of "''production''"] NewAvalaraClient_baseURL [of "[]"]
    NewAvalaraClient_baseURL [of "''sandbox''"] NewAvalaraClient_baseURL [of "''test''"]
    NewAvalaraClient_baseURL [of "''HTTP://localhost:9090''"]
  by (simp add: HasPrefix_def ToLower_def ToLower_char_def)

subsection \<open>Credentials and the Authorization header\<close>

lemma length_EncodeToString: "length (EncodeToString s) = 4 * ((length s + 2) div 3)"
proof (induction s rule: EncodeToString.induct)
  case (4 a b c rest)
  have "(length rest + 5) div 3 = Suc ((length rest + 2) div 3)" by presburger
  with 4 show ?case by (simp add: Let_def add.commute)
qed (simp_all add: Let_def)

lemma b64_in_alphabet: "b64 n \<in> set encodeStd"
  unfolding b64_def by (rule nth_mem) (simp add: encodeStd_def)

lemma get_request_Header:
  "get_request env c endpoint options = Inr req \<Longrightarrow>
     Header req = [''Authorization'' \<mapsto> ''Basic '' @ credentials c,
                   ''X-Avalara-Client'' \<mapsto> clientHeader c,
                   ''Content-Type'' \<mapsto> ''application/json'',
                   ''Accept'' \<mapsto> ''application/json'']"
  by (auto simp add: get_request_def NewRequest_def split: sum.splits option.splits)

text \<open>
  C6: for every user name and password, the empty ones included, \<^verbatim>\<open>AddCredentials\<close>
  stores the base64 encoding of the user name, a colon and the password, and every
  request the transport wrapper builds for that client carries the header
  \<^verbatim>\<open>Authorization\<close> with \<^verbatim>\<open>Basic\<close>, a space and the stored value.
\<close>

theorem AddCredentials_Authorization:
  "credentials (AddCredentials c username password)
     = EncodeToString (username @ '':'' @ password)
   \<and> (get_request env (AddCredentials c username password) endpoint options = Inr req \<longrightarrow>
        Header req ''Authorization''
          = Some (''Basic '' @ EncodeToString (username @ '':'' @ password)))"
  by (auto simp add: AddCredentials_def dest: get_request_Header)

theorem AddCredentials_Authorization_witness:
  "credentials (AddCredentials (NewAvalaraClient []) ''testuser'' ''testpass'')
     = ''dGVzdHVzZXI6dGVzdHBhc3M=''
   \<and> credentials (AddCredentials (NewAvalaraClient []) [] []) = ''Og==''
   \<and> map_sum id (\<lambda>req. Header req ''Authorization'')
        (get_request (test_env roles_server)
           (AddCredentials (NewAvalaraClient []) ''testuser'' ''testpass'')
           ''/api/v2/users'' None)
       = Inr (Some ''Basic dGVzdHVzZXI6dGVzdHBhc3M='')"
  using AddCredentials_Authorization
     [of "NewAvalaraClient []" "''testuser''" "''testpass''" "test_env roles_server"
         "''/api/v2/users''" None]
    AddCredentials_Authorization [of "NewAvalaraClient []" "[]" "[]"]
  by (simp add: AddCredentials_def NewAvalaraClient_def get_request_def get_URL_def
      NewRequest_def test_env_def test_Parse_def b64_def encodeStd_def)

subsection \<open>Evaluating the examples\<close>

lemmas test_defs =
  get_def Do_def test_url_Error_def test_status_Error_def get_request_def get_URL_def set_options_def Encode_def QueryEscape_def
  QueryEscape_char_def shouldEscape_def upperhex_def NewRequest_def
  test_env_def test_Parse_def testRoundTripper_def test_client_def AddCredentials_def
  NewAvalaraClient_def ProductionBaseURL_def HasPrefix_def ToLower_def deref_def
  Itoa_def utoa.simps digit_def

subsection \<open>Responses with an error status\<close>

lemma Do_Inr_status:
  "Do env req = Inr resp \<Longrightarrow> 200 \<le> StatusCode resp \<and> StatusCode resp < 300"
  by (auto simp add: Do_def split: sum.splits if_splits)

text \<open>The only API error \<^verbatim>\<open>get\<close> returns is the format error of a success response:
  its branch for an error status is never entered.\<close>

lemma get_AvalaraErr_FormatException:
  "get env c endpoint options Unmarshal_result = Inl (AvalaraErr e) \<Longrightarrow>
     Code e = ''FormatException''"
  by (auto simp add: get_def get_request_def get_URL_def split: sum.splits if_splits
      option.splits dest: Do_Inr_status)

text \<open>
  C4 says that a response with a status code outside [200,300) whose body decodes into
  the structured error object with a non-empty code makes the call fail with the typed
  API error of that code. The code does not do so: for every such response of the
  transport, whatever its body, the HTTP client returns its status error,
  \<^verbatim>\<open>get\<close> returns at once with that error wrapped behind
  \<^verbatim>\<open>error sending request\<close>, and the body is never decoded. The example of the claim,
  status 401 with the body of an \<^verbatim>\<open>AuthenticationException\<close>, is the instance below.
\<close>

theorem get_error_status_lost:
  assumes "get_request env c endpoint options = Inr req"
    and "RoundTrip env req = Inr resp"
    and "StatusCode resp < 200 \<or> 300 \<le> StatusCode resp"
  shows "get env c endpoint options Unmarshal_result
           = Inl (Wrapf ''error sending request: '' (LibError (status_Error env resp)))"
  using assms by (auto simp add: get_def Do_def)

theorem get_error_status_lost_witness:
  "Unmarshal_AvalaraErrorResponse
       (test_env (testRoundTripper \<lparr>StatusCode = 401, Body = Inr error_body\<rparr> None))
       error_body
     = Inr \<lparr>Error = \<lparr>Code = ''AuthenticationException'', Message = ''bad creds'',
                       Target = [], Details = []\<rparr>\<rparr>
   \<and> get (test_env (testRoundTripper \<lparr>StatusCode = 401, Body = Inr error_body\<rparr> None))
       test_client ''/api/v2/users'' None test_Unmarshal_users
     = Inl (Wrapf ''error sending request: '' (LibError ''status 401''))"
proof -
  let ?env = "test_env (testRoundTripper \<lparr>StatusCode = 401, Body = Inr error_body\<rparr> None)"
  let ?req = "\<lparr>Method = ''GET'',
               URL = \<lparr>Location = ''https://rest.avatax.com/api/v2/users'', RawQuery = []\<rparr>,
               Header = [''Authorization'' \<mapsto> ''Basic '' @ credentials test_client,
                         ''X-Avalara-Client'' \<mapsto> clientHeader test_client,
                         ''Content-Type'' \<mapsto> ''application/json'',
                         ''Accept'' \<mapsto> ''application/json'']\<rparr>"
  have r: "get_request ?env test_client ''/api/v2/users'' None = Inr ?req"
    by (simp add: test_defs)
  have t: "RoundTrip ?env ?req = Inr \<lparr>StatusCode = 401, Body = Inr error_body\<rparr>"
    by (simp add: test_env_def testRoundTripper_def)
  have s: "StatusCode \<lparr>StatusCode = 401, Body = Inr error_body\<rparr> < 200
           \<or> 300 \<le> StatusCode \<lparr>StatusCode = 401, Body = Inr error_body\<rparr>"
    by simp
  have e: "status_Error ?env \<lparr>StatusCode = 401, Body = Inr error_body\<rparr> = ''status 401''"
    by (simp add: test_env_def test_status_Error_def Itoa_def utoa.simps digit_def)
  have u: "Unmarshal_AvalaraErrorResponse ?env error_body
     = Inr \<lparr>Error = \<lparr>Code = ''AuthenticationException'', Message = ''bad creds'',
                       Target = [], Details = []\<rparr>\<rparr>"
    by (simp add: test_env_def test_Unmarshal_error_def)
  show ?thesis
    using get_error_status_lost [OF r t s, where Unmarshal_result = test_Unmarshal_users] e u
    by simp
qed

subsection \<open>Responses with a success status\<close>

text \<open>
  C5: when the transport returns a response whose status code is in [200,300) and whose
  body does not decode into the target type, the call fails with the format error: an
  API error with code \<^verbatim>\<open>FormatException\<close>, which is not the status-code error and
  whose details are the text of the decode failure. A body that decodes is the result
  of the call, without an error.
\<close>

theorem get_success_status:
  assumes "get_request env c endpoint options = Inr req"
    and "Do env req = Inr resp"
    and "Body resp = Inr bodyBytes"
    and "200 \<le> StatusCode resp" and "StatusCode resp < 300"
  shows "(Unmarshal_result bodyBytes = Inl failure \<longrightarrow>
            get env c endpoint options Unmarshal_result
              = Inl (AvalaraErr
                  \<lparr>Code = ''FormatException'',
                   Message = ''The server returned the response in an unexpected format'',
                   Target = [], Details = failure\<rparr>)
            \<and> get env c endpoint options Unmarshal_result
              \<noteq> Inl (Errorf (''unexpected status code: '' @ Itoa (StatusCode resp))))
       \<and> (Unmarshal_result bodyBytes = Inr result \<longrightarrow>
            get env c endpoint options Unmarshal_result = Inr result)"
  using assms by (auto simp add: get_def split: sum.splits)

theorem get_success_status_witness:
  "get (test_env (testRoundTripper \<lparr>StatusCode = 200, Body = Inr ''<html>''\<rparr> None))
       test_client ''/api/v2/users'' None test_Unmarshal_users
     = Inl (AvalaraErr
         \<lparr>Code = ''FormatException'',
          Message = ''The server returned the response in an unexpected format'',
          Target = [], Details = ''invalid character '<' looking for beginning of value''\<rparr>)
   \<and> get (test_env (testRoundTripper \<lparr>StatusCode = 200, Body = Inr users_body\<rparr> None))
       test_client ''/api/v2/users'' None test_Unmarshal_users
     = Inr \<lparr>RecordsetCount = 0,
            Value = [test_user 1 ''AccountUser'', test_user 2 ''AccountAdmin''],
            nextLink = [], PageKey = []\<rparr>"
proof -
  let ?e1 = "test_env (testRoundTripper \<lparr>StatusCode = 200, Body = Inr ''<html>''\<rparr> None)"
  let ?e2 = "test_env (testRoundTripper \<lparr>StatusCode = 200, Body = Inr users_body\<rparr> None)"
  let ?req = "\<lparr>Method = ''GET'',
               URL = \<lparr>Location = ''https://rest.avatax.com/api/v2/users'', RawQuery = []\<rparr>,
               Header = [''Authorization'' \<mapsto> ''Basic '' @ credentials test_client,
                         ''X-Avalara-Client'' \<mapsto> clientHeader test_client,
                         ''Content-Type'' \<mapsto> ''application/json'',
                         ''Accept'' \<mapsto> ''application/json'']\<rparr>"
  have r1: "get_request ?e1 test_client ''/api/v2/users'' None = Inr ?req"
    and r2: "get_request ?e2 test_client ''/api/v2/users'' None = Inr ?req"
    by (simp_all add: test_defs)
  have d1: "Do ?e1 ?req = Inr \<lparr>StatusCode = 200, Body = Inr ''<html>''\<rparr>"
    and d2: "Do ?e2 ?req = Inr \<lparr>StatusCode = 200, Body = Inr users_body\<rparr>"
    by (simp_all add: Do_def test_env_def testRoundTripper_def)
  have u1: "test_Unmarshal_users ''<html>''
              = Inl ''invalid character '<' looking for beginning of value''"
    by (simp add: test_Unmarshal_users_def users_body_def decode_failure_def)
  have u2: "test_Unmarshal_users users_body
              = Inr \<lparr>RecordsetCount = 0,
                     Value = [test_user 1 ''AccountUser'', test_user 2 ''AccountAdmin''],
                     nextLink = [], PageKey = []\<rparr>"
    by (simp add: test_Unmarshal_users_def)
  show ?thesis
    using get_success_status [OF r1 d1, where bodyBytes = "''<html>''"
        and Unmarshal_result = test_Unmarshal_users
        and failure = "''invalid character '<' looking for beginning of value''"]
      get_success_status [OF r2 d2, where bodyBytes = users_body
        and Unmarshal_result = test_Unmarshal_users
        and result = "\<lparr>RecordsetCount = 0,
                     Value = [test_user 1 ''AccountUser'', test_user 2 ''AccountAdmin''],
                     nextLink = [], PageKey = []\<rparr>"]
      u1 u2
    by simp
qed

subsection \<open>Validate\<close>

lemma Ping_eq_get:
  "Ping env c = get env c ''/api/v2/utilities/ping'' None (Unmarshal_PingResponse env)"
  by (simp add: Ping_def split: sum.splits)

text \<open>
  C8: \<^verbatim>\<open>Validate\<close> returns an error exactly when the ping request fails or the ping
  response says \<^verbatim>\<open>authenticated=false\<close>; when the ping succeeds with
  \<^verbatim>\<open>authenticated=true\<close> it returns no error.
\<close>

theorem Validate_error_iff:
  "(Validate env c \<noteq> None)
     = ((\<exists>err. Ping env c = Inl err) \<or> (\<exists>p. Ping env c = Inr p \<and> \<not> Authenticated p))
   \<and> (Ping env c = Inr pingResponse \<and> Authenticated pingResponse \<longrightarrow> Validate env c = None)
   \<and> (Ping env c = Inl err \<longrightarrow>
        Validate env c = Some (Wrapf ''failed to validate Avalara connection: '' err))
   \<and> (Ping env c = Inr pingResponse \<and> \<not> Authenticated pingResponse \<longrightarrow>
        Validate env c = Some (Errorf ''Avalara authentication failed''))"
  by (auto simp add: Validate_def split: sum.splits)

theorem Validate_error_iff_witness:
  "Validate (test_env (testRoundTripper \<lparr>StatusCode = 200, Body = Inr ping_ok_body\<rparr> None))
     test_client = None
   \<and> Validate (test_env (testRoundTripper
        \<lparr>StatusCode = 200, Body = Inr ping_anonymous_body\<rparr> None)) test_client
     = Some (Errorf ''Avalara authentication failed'')
   \<and> Validate (test_env (testRoundTripper \<lparr>StatusCode = 401, Body = Inr error_body\<rparr> None))
     test_client
     = Some (Wrapf ''failed to validate Avalara connection: ''
         (Wrapf ''error sending request: '' (LibError ''status 401'')))"
proof -
  let ?e1 = "test_env (testRoundTripper \<lparr>StatusCode = 200, Body = Inr ping_ok_body\<rparr> None)"
  let ?e2 = "test_env (testRoundTripper
               \<lparr>StatusCode = 200, Body = Inr ping_anonymous_body\<rparr> None)"
  let ?e3 = "test_env (testRoundTripper \<lparr>StatusCode = 401, Body = Inr error_body\<rparr> None)"
  have p1: "Ping ?e1 test_client = Inr (test_ping True)"
    by (simp add: Ping_def test_defs test_Unmarshal_ping_def)
  have p2: "Ping ?e2 test_client = Inr (test_ping False)"
    by (simp add: Ping_def test_defs test_Unmarshal_ping_def ping_ok_body_def
        ping_anonymous_body_def)
  have p3: "Ping ?e3 test_client
              = Inl (Wrapf ''error sending request: '' (LibError ''status 401''))"
    by (simp add: Ping_def test_defs)
  show ?thesis
    using Validate_error_iff [of ?e1 test_client "test_ping True"] p1
      Validate_error_iff [of ?e2 test_client "test_ping False"] p2
      Validate_error_iff [of ?e3 test_client _
        "Wrapf ''error sending request: '' (LibError ''status 401'')"] p3
    by (simp add: test_ping_def)
qed

subsection \<open>The accessors and the options pointer\<close>

text \<open>
  C9: when the underlying request fails (in the transport, by an error status or in
  decoding), each of \<^verbatim>\<open>GetUserRoles\<close>, \<^verbatim>\<open>GetAccounts\<close>, \<^verbatim>\<open>GetUsers\<close> and
  \<^verbatim>\<open>GetPermissions\<close> returns a \<^verbatim>\<open>nil\<close> response, the error, and the options pointer
  it was given; the heap, and so the object behind the pointer with its
  \<^verbatim>\<open>NextLink\<close>, is unchanged.
\<close>

theorem accessors_failure:
  "(get env c ''/api/v2/definitions/securityroles'' (deref h options)
        (Unmarshal_SecurityRoleResponse env) = Inl err \<longrightarrow>
      GetUserRoles env c h options = (h, None, options, Some err))
   \<and> (get env c ''/api/v2/accounts'' (deref h options)
        (Unmarshal_AccountResponse env) = Inl err \<longrightarrow>
      GetAccounts env c h options = (h, None, options, Some err))
   \<and> (get env c ''/api/v2/users'' (deref h options)
        (Unmarshal_UserResponse env) = Inl err \<longrightarrow>
      GetUsers env c h options = (h, None, options, Some err))
   \<and> (get env c ''/api/v2/definitions/permissions'' (deref h options)
        (Unmarshal_PermissionResponse env) = Inl err \<longrightarrow>
      GetPermissions env c h options = (h, None, options, Some err))
   \<and> (GetUserRoles env c h options = (h1, r1, p1, Some err1) \<longrightarrow>
        h1 = h \<and> r1 = None \<and> p1 = options)
   \<and> (GetAccounts env c h options = (h2, r2, p2, Some err2) \<longrightarrow>
        h2 = h \<and> r2 = None \<and> p2 = options)
   \<and> (GetUsers env c h options = (h3, r3, p3, Some err3) \<longrightarrow>
        h3 = h \<and> r3 = None \<and> p3 = options)
   \<and> (GetPermissions env c h options = (h4, r4, p4, Some err4) \<longrightarrow>
        h4 = h \<and> r4 = None \<and> p4 = options)"
  by (auto simp add: GetUserRoles_def GetAccounts_def GetUsers_def GetPermissions_def
      split: sum.splits prod.splits)

theorem accessors_failure_witness:
  \<open>GetUserRoles (test_env (testRoundTripper \<lparr>StatusCode = 0, Body = Inr []\<rparr>
       (Some ''connection refused''))) test_client test_heap (Some 0)
     = (test_heap, None, Some 0,
        Some (Wrapf ''error sending request: ''
          (LibError (''Get "https://rest.avatax.com/api/v2/definitions/securityroles?%24top=2": ''
                     @ ''connection refused''))))
   \<and> GetAccounts (test_env (testRoundTripper \<lparr>StatusCode = 401, Body = Inr error_body\<rparr>
       None)) test_client test_heap (Some 0)
     = (test_heap, None, Some 0,
        Some (Wrapf ''error sending request: '' (LibError ''status 401'')))
   \<and> GetUsers (test_env (testRoundTripper \<lparr>StatusCode = 503, Body = Inr ''<html>''\<rparr>
       None)) test_client test_heap (Some 0)
     = (test_heap, None, Some 0,
        Some (Wrapf ''error sending request: '' (LibError ''status 503'')))
   \<and> GetPermissions (test_env (testRoundTripper \<lparr>StatusCode = 200, Body = Inr ''<html>''\<rparr>
       None)) test_client test_heap None
     = (test_heap, None, None,
        Some (AvalaraErr
          \<lparr>Code = ''FormatException'',
           Message = ''The server returned the response in an unexpected format'',
           Target = [], Details = decode_failure\<rparr>))
   \<and> NextLink (cells test_heap 0) = []\<close>
proof -
  let ?e1 = "test_env (testRoundTripper \<lparr>StatusCode = 0, Body = Inr []\<rparr>
       (Some ''connection refused''))"
  let ?e2 = "test_env (testRoundTripper \<lparr>StatusCode = 401, Body = Inr error_body\<rparr> None)"
  let ?e3 = "test_env (testRoundTripper \<lparr>StatusCode = 503, Body = Inr ''<html>''\<rparr> None)"
  let ?e4 = "test_env (testRoundTripper \<lparr>StatusCode = 200, Body = Inr ''<html>''\<rparr> None)"
  have c0: "cells test_heap 0 = test_options"
    by (simp add: test_heap_def new_def empty_Heap_def)
  have g1: \<open>get ?e1 test_client ''/api/v2/definitions/securityroles''
              (deref test_heap (Some 0)) (Unmarshal_SecurityRoleResponse ?e1)
            = Inl (Wrapf ''error sending request: ''
                (LibError (''Get "https://rest.avatax.com/api/v2/definitions/securityroles?%24top=2": ''
                           @ ''connection refused'')))\<close>
    by (simp add: test_defs c0 test_options_def)
  have g2: "get ?e2 test_client ''/api/v2/accounts''
              (deref test_heap (Some 0)) (Unmarshal_AccountResponse ?e2)
            = Inl (Wrapf ''error sending request: '' (LibError ''status 401''))"
    by (simp add: test_defs c0 test_options_def)
  have g3: "get ?e3 test_client ''/api/v2/users''
              (deref test_heap (Some 0)) (Unmarshal_UserResponse ?e3)
            = Inl (Wrapf ''error sending request: '' (LibError ''status 503''))"
    by (simp add: test_defs c0 test_options_def)
  have g4: "get ?e4 test_client ''/api/v2/definitions/permissions''
              (deref test_heap None) (Unmarshal_PermissionResponse ?e4)
            = Inl (AvalaraErr
          \<lparr>Code = ''FormatException'',
           Message = ''The server returned the response in an unexpected format'',
           Target = [], Details = decode_failure\<rparr>)"
    by (simp add: test_defs test_Unmarshal_permissions_def permissions_body_def)
  show ?thesis
    using accessors_failure [of ?e1 test_client test_heap "Some 0"] g1
      accessors_failure [of ?e2 test_client test_heap "Some 0"] g2
      accessors_failure [of ?e3 test_client test_heap "Some 0"] g3
      accessors_failure [of ?e4 test_client test_heap None] g4 c0
    by (simp add: test_options_def)
qed

lemma updatePaginationOptions_Some:
  "updatePaginationOptions h (Some a) r
     = (h\<lparr>cells := (cells h)(a := (cells h a)\<lparr>NextLink := nextLink r\<rparr>)\<rparr>, Some a)"
  by (simp add: updatePaginationOptions_def assign_NextLink_def GetNextLink_def)

text \<open>
  C10: when one of \<^verbatim>\<open>GetUserRoles\<close>, \<^verbatim>\<open>GetAccounts\<close>, \<^verbatim>\<open>GetUsers\<close> and
  \<^verbatim>\<open>GetPermissions\<close> succeeds on a non-nil options pointer, it returns that same
  pointer, and the heap differs from the one before the call only in the
  \<^verbatim>\<open>NextLink\<close> of the object behind it, which is the next link of the response
  (empty when the response has none): \<^verbatim>\<open>Top\<close>, \<^verbatim>\<open>Skip\<close>, \<^verbatim>\<open>OrderBy\<close> and
  \<^verbatim>\<open>Filter\<close> are as before, no other object changes and none is allocated.
\<close>

theorem accessors_success:
  "(GetUserRoles env c h (Some a) = (h1, Some r1, p1, None) \<longrightarrow>
      p1 = Some a
      \<and> h1 = h\<lparr>cells := (cells h)(a := (cells h a)\<lparr>NextLink := nextLink r1\<rparr>)\<rparr>)
   \<and> (GetAccounts env c h (Some a) = (h2, Some r2, p2, None) \<longrightarrow>
      p2 = Some a
      \<and> h2 = h\<lparr>cells := (cells h)(a := (cells h a)\<lparr>NextLink := nextLink r2\<rparr>)\<rparr>)
   \<and> (GetUsers env c h (Some a) = (h3, Some r3, p3, None) \<longrightarrow>
      p3 = Some a
      \<and> h3 = h\<lparr>cells := (cells h)(a := (cells h a)\<lparr>NextLink := nextLink r3\<rparr>)\<rparr>)
   \<and> (GetPermissions env c h (Some a) = (h4, Some r4, p4, None) \<longrightarrow>
      p4 = Some a
      \<and> h4 = h\<lparr>cells := (cells h)(a := (cells h a)\<lparr>NextLink := nextLink r4\<rparr>)\<rparr>)
   \<and> (h' = h\<lparr>cells := (cells h)(a := (cells h a)\<lparr>NextLink := link\<rparr>)\<rparr> \<longrightarrow>
        NextLink (cells h' a) = link
        \<and> Top (cells h' a) = Top (cells h a) \<and> Skip (cells h' a) = Skip (cells h a)
        \<and> OrderBy (cells h' a) = OrderBy (cells h a)
        \<and> Filter (cells h' a) = Filter (cells h a)
        \<and> (\<forall>b. b \<noteq> a \<longrightarrow> cells h' b = cells h b)
        \<and> fresh h' = fresh h)"
  by (auto simp add: GetUserRoles_def GetAccounts_def GetUsers_def GetPermissions_def
      updatePaginationOptions_Some split: sum.splits)

theorem accessors_success_witness:
  "(case GetUserRoles
           (test_env (testRoundTripper \<lparr>StatusCode = 200, Body = Inr roles_page1_body\<rparr> None))
           test_client test_heap (Some 0) of
      (h', r, p, e) \<Rightarrow> (cells h' 0, cells h' 1, fresh h', map_option nextLink r, p, e))
     = (test_options\<lparr>NextLink := roles_next_link\<rparr>, cells test_heap 1, fresh test_heap,
        Some roles_next_link, Some 0, None)
   \<and> (case GetUserRoles
           (test_env (testRoundTripper \<lparr>StatusCode = 200, Body = Inr roles_page2_body\<rparr> None))
           test_client
           (test_heap\<lparr>cells := (cells test_heap)(0 := test_options\<lparr>NextLink := roles_next_link\<rparr>)\<rparr>)
           (Some 0) of
      (h', r, p, e) \<Rightarrow> (cells h' 0, fresh h', map_option nextLink r, p, e))
     = (test_options\<lparr>NextLink := []\<rparr>, fresh test_heap, Some [], Some 0, None)
   \<and> (case GetAccounts
           (test_env (testRoundTripper \<lparr>StatusCode = 200, Body = Inr accounts_body\<rparr> None))
           test_client test_heap (Some 0) of
      (h', r, p, e) \<Rightarrow> (cells h' 0, fresh h', map_option nextLink r, p, e))
     = (test_options\<lparr>NextLink := ''https://rest.avatax.com/api/v2/accounts?$skip=1''\<rparr>,
        fresh test_heap, Some ''https://rest.avatax.com/api/v2/accounts?$skip=1'', Some 0, None)
   \<and> (case GetUsers
           (test_env (testRoundTripper \<lparr>StatusCode = 200, Body = Inr users_body\<rparr> None))
           test_client test_heap (Some 0) of
      (h', r, p, e) \<Rightarrow> (cells h' 0, fresh h', map_option nextLink r, p, e))
     = (test_options\<lparr>NextLink := []\<rparr>, fresh test_heap, Some [], Some 0, None)
   \<and> (case GetPermissions
           (test_env (testRoundTripper \<lparr>StatusCode = 200, Body = Inr permissions_body\<rparr> None))
           test_client test_heap (Some 0) of
      (h', r, p, e) \<Rightarrow> (cells h' 0, fresh h', map_option nextLink r, p, e))
     = (test_options\<lparr>NextLink := ''https://rest.avatax.com/next''\<rparr>, fresh test_heap,
        Some ''https://rest.avatax.com/next'', Some 0, None)"
proof -
  let ?e1 = "test_env (testRoundTripper \<lparr>StatusCode = 200, Body = Inr roles_page1_body\<rparr> None)"
  let ?e1' = "test_env (testRoundTripper \<lparr>StatusCode = 200, Body = Inr roles_page2_body\<rparr> None)"
  let ?e2 = "test_env (testRoundTripper \<lparr>StatusCode = 200, Body = Inr accounts_body\<rparr> None)"
  let ?e3 = "test_env (testRoundTripper \<lparr>StatusCode = 200, Body = Inr users_body\<rparr> None)"
  let ?e4 = "test_env (testRoundTripper \<lparr>StatusCode = 200, Body = Inr permissions_body\<rparr> None)"
  let ?h = "test_heap\<lparr>cells := (cells test_heap)(0 := test_options\<lparr>NextLink := roles_next_link\<rparr>)\<rparr>"
  have c0: "cells test_heap 0 = test_options"
    by (simp add: test_heap_def new_def empty_Heap_def)
  have g1: "GetUserRoles ?e1 test_client test_heap (Some 0)
      = (?h, Some \<lparr>RecordsetCount = 0,
                Value = [\<lparr>role_ID = 1, role_Description = ''SystemAdmin''\<rparr>,
                         \<lparr>role_ID = 2, role_Description = ''AccountAdmin''\<rparr>],
                nextLink = roles_next_link, PageKey = []\<rparr>, Some 0, None)"
    by (simp add: GetUserRoles_def test_defs c0 test_options_def test_Unmarshal_roles_def
        updatePaginationOptions_Some)
  have g1': "GetUserRoles ?e1' test_client ?h (Some 0)
      = (?h\<lparr>cells := (cells ?h)(0 := (cells ?h 0)\<lparr>NextLink := []\<rparr>)\<rparr>,
         Some \<lparr>RecordsetCount = 0,
                Value = [\<lparr>role_ID = 3, role_Description = ''CompanyAdmin''\<rparr>,
                         \<lparr>role_ID = 4, role_Description = ''CompanyUser''\<rparr>],
                nextLink = [], PageKey = []\<rparr>, Some 0, None)"
    by (simp add: GetUserRoles_def test_defs test_options_def test_Unmarshal_roles_def
        updatePaginationOptions_Some roles_next_link_def roles_page1_body_def
        roles_page2_body_def)
  have g2: "GetAccounts ?e2 test_client test_heap (Some 0)
      = (test_heap\<lparr>cells := (cells test_heap)(0 := (cells test_heap 0)
            \<lparr>NextLink := ''https://rest.avatax.com/api/v2/accounts?$skip=1''\<rparr>)\<rparr>,
         Some \<lparr>RecordsetCount = 0, Value = [],
                nextLink = ''https://rest.avatax.com/api/v2/accounts?$skip=1'', PageKey = []\<rparr>,
         Some 0, None)"
    by (simp add: GetAccounts_def test_defs c0 test_options_def test_Unmarshal_accounts_def
        updatePaginationOptions_Some)
  have g3: "GetUsers ?e3 test_client test_heap (Some 0)
      = (test_heap\<lparr>cells := (cells test_heap)(0 := (cells test_heap 0)\<lparr>NextLink := []\<rparr>)\<rparr>,
         Some \<lparr>RecordsetCount = 0,
                Value = [test_user 1 ''AccountUser'', test_user 2 ''AccountAdmin''],
                nextLink = [], PageKey = []\<rparr>,
         Some 0, None)"
    by (simp add: GetUsers_def test_defs c0 test_options_def test_Unmarshal_users_def
        updatePaginationOptions_Some)
  have g4: "GetPermissions ?e4 test_client test_heap (Some 0)
      = (test_heap\<lparr>cells := (cells test_heap)(0 := (cells test_heap 0)
            \<lparr>NextLink := ''https://rest.avatax.com/next''\<rparr>)\<rparr>,
         Some \<lparr>RecordsetCount = 0, Value = [''AccountSvc'', ''CompanySvc''],
                nextLink = ''https://rest.avatax.com/next'', PageKey = []\<rparr>,
         Some 0, None)"
    by (simp add: GetPermissions_def test_defs c0 test_options_def
        test_Unmarshal_permissions_def updatePaginationOptions_Some)
  note t1 = accessors_success [THEN conjunct1, rule_format, OF g1]
  note t1' = accessors_success [THEN conjunct1, rule_format, OF g1']
  note t2 = accessors_success [THEN conjunct2, THEN conjunct1, rule_format, OF g2]
  note t3 = accessors_success [THEN conjunct2, THEN conjunct2, THEN conjunct1, rule_format, OF g3]
  note t4 = accessors_success [THEN conjunct2, THEN conjunct2, THEN conjunct2, THEN conjunct1,
      rule_format, OF g4]
  show ?thesis
    using t1 t1' t2 t3 t4
    by (simp add: g1 g1' g2 g3 g4 c0)
qed

subsection \<open>The URL of a request\<close>

lemma map_of_Values_Set: "map_of (Values_Set q k v) = (map_of q)(k \<mapsto> [v])"
  by (induction q k v rule: Values_Set.induct) auto

lemma sorted_keys_cong:
  assumes "map_of q = map_of q'"
  shows "sort (remdups (map fst q)) = sort (remdups (map fst q'))"
proof (rule sorted_distinct_set_unique)
  have "set (map fst q) = dom (map_of q)" "set (map fst q') = dom (map_of q')"
    by (simp_all add: dom_map_of_conv_image_fst)
  with assms show "set (sort (remdups (map fst q))) = set (sort (remdups (map fst q')))"
    by simp
qed simp_all

lemma Encode_cong: "map_of q = map_of q' \<Longrightarrow> Encode q = Encode q'"
  using sorted_keys_cong [of q q'] by (simp add: Encode_def)

lemma map_of_set_options:
  "map_of (set_options opts q) =
     (\<lambda>k. if k = ''$filter'' \<and> Filter opts \<noteq> [] then Some [Filter opts]
          else if k = ''$orderby'' \<and> OrderBy opts \<noteq> [] then Some [OrderBy opts]
          else if k = ''$skip'' \<and> 0 < Skip opts then Some [Itoa (Skip opts)]
          else if k = ''$top'' \<and> 0 < Top opts then Some [Itoa (Top opts)]
          else map_of q k)"
  by (rule ext) (simp add: set_options_def Let_def map_of_Values_Set)

lemma get_request_URL_eq:
  "get_request env c endpoint options = Inr req \<Longrightarrow> get_URL env c endpoint options = Inr (URL req)"
  by (auto simp add: get_request_def NewRequest_def split: sum.splits option.splits)

lemma get_URL_NextLink:
  "NextLink opts \<noteq> [] \<Longrightarrow>
     get_URL env c endpoint (Some opts)
       = (case url_Parse env (NextLink opts) of
            Inl err \<Rightarrow> Inl (Wrapf ''error parsing URL: '' (LibError err))
          | Inr u \<Rightarrow> Inr u)"
  by (simp add: get_URL_def split: sum.splits)

text \<open>
  C1, as stated: without a next link the options that are not zero or empty are encoded
  as query parameters. The wrapper encodes \<^verbatim>\<open>Top\<close> and \<^verbatim>\<open>Skip\<close> only when they are
  greater than zero, so a negative \<^verbatim>\<open>Top\<close>, which is not zero, is left out: the URL
  for \<^verbatim>\<open>Top = -1\<close> has an empty query.
\<close>

theorem get_request_URL_counterexample:
  "Top (test_options\<lparr>Top := - 1\<rparr>) \<noteq> 0
   \<and> get_URL (test_env roles_server) test_client ''/api/v2/users''
         (Some (test_options\<lparr>Top := - 1\<rparr>))
       = Inr \<lparr>Location = ''https://rest.avatax.com/api/v2/users'', RawQuery = []\<rparr>"
  by (simp add: test_defs test_options_def)

text \<open>
  C1, amended: when the options carry a non-empty \<^verbatim>\<open>NextLink\<close>, the URL of the
  request is the parsed link, unchanged (its query is not encoded again), and
  \<^verbatim>\<open>Top\<close>, \<^verbatim>\<open>Skip\<close>, \<^verbatim>\<open>OrderBy\<close> and \<^verbatim>\<open>Filter\<close> are ignored. Otherwise the URL
  is parsed from the base URL followed by the endpoint; with \<^verbatim>\<open>nil\<close> options it is left as
  parsed, and with options its query is the encoding of the query values of that URL in
  which exactly the positive \<^verbatim>\<open>Top\<close> and \<^verbatim>\<open>Skip\<close> and the non-empty \<^verbatim>\<open>OrderBy\<close> and
  \<^verbatim>\<open>Filter\<close> are set, under the keys \<^verbatim>\<open>$top\<close>, \<^verbatim>\<open>$skip\<close>, \<^verbatim>\<open>$orderby\<close> and
  \<^verbatim>\<open>$filter\<close>; every other key keeps its values.
\<close>

theorem get_request_URL:
  "(NextLink opts \<noteq> [] \<and> get_request env c endpoint (Some opts) = Inr req \<longrightarrow>
      url_Parse env (NextLink opts) = Inr (URL req))
   \<and> (NextLink opts \<noteq> [] \<longrightarrow>
        get_request env c endpoint (Some (opts\<lparr>Top := t, Skip := s, OrderBy := ob, Filter := f\<rparr>))
          = get_request env c endpoint (Some opts))
   \<and> (NextLink opts = [] \<and> get_request env c endpoint (Some opts) = Inr req \<longrightarrow>
        (\<exists>u. url_Parse env (baseURL c @ endpoint) = Inr u
           \<and> URL req = u\<lparr>RawQuery := Encode (set_options opts (Query env u))\<rparr>))
   \<and> (get_request env c endpoint None = Inr req \<longrightarrow>
        url_Parse env (baseURL c @ endpoint) = Inr (URL req))
   \<and> map_of (set_options opts q) =
        (\<lambda>k. if k = ''$filter'' \<and> Filter opts \<noteq> [] then Some [Filter opts]
             else if k = ''$orderby'' \<and> OrderBy opts \<noteq> [] then Some [OrderBy opts]
             else if k = ''$skip'' \<and> 0 < Skip opts then Some [Itoa (Skip opts)]
             else if k = ''$top'' \<and> 0 < Top opts then Some [Itoa (Top opts)]
             else map_of q k)"
proof (intro conjI impI)
  assume "NextLink opts \<noteq> [] \<and> get_request env c endpoint (Some opts) = Inr req"
  then show "url_Parse env (NextLink opts) = Inr (URL req)"
    using get_request_URL_eq [of env c endpoint "Some opts" req]
    by (auto simp add: get_URL_NextLink split: sum.splits)
next
  assume "NextLink opts \<noteq> []"
  then show "get_request env c endpoint
               (Some (opts\<lparr>Top := t, Skip := s, OrderBy := ob, Filter := f\<rparr>))
             = get_request env c endpoint (Some opts)"
    by (simp add: get_request_def get_URL_NextLink)
next
  assume "NextLink opts = [] \<and> get_request env c endpoint (Some opts) = Inr req"
  then show "\<exists>u. url_Parse env (baseURL c @ endpoint) = Inr u
           \<and> URL req = u\<lparr>RawQuery := Encode (set_options opts (Query env u))\<rparr>"
    using get_request_URL_eq [of env c endpoint "Some opts" req]
    by (auto simp add: get_URL_def split: sum.splits)
next
  assume "get_request env c endpoint None = Inr req"
  then show "url_Parse env (baseURL c @ endpoint) = Inr (URL req)"
    using get_request_URL_eq [of env c endpoint None req]
    by (auto simp add: get_URL_def split: sum.splits)
next
  show "map_of (set_options opts q) =
        (\<lambda>k. if k = ''$filter'' \<and> Filter opts \<noteq> [] then Some [Filter opts]
             else if k = ''$orderby'' \<and> OrderBy opts \<noteq> [] then Some [OrderBy opts]
             else if k = ''$skip'' \<and> 0 < Skip opts then Some [Itoa (Skip opts)]
             else if k = ''$top'' \<and> 0 < Top opts then Some [Itoa (Top opts)]
             else map_of q k)"
    by (rule map_of_set_options)
qed

theorem get_request_URL_witness:
  "map_sum id URL
     (get_request (test_env roles_server) test_client ''/api/v2/definitions/securityroles''
        (Some \<lparr>Top = 100, Skip = 7, OrderBy = ''id'', Filter = ''id eq 5'',
               NextLink = roles_next_link\<rparr>))
     = Inr \<lparr>Location = ''https://rest.avatax.com/api/v2/definitions/securityroles'',
            RawQuery = ''$skip=2&$top=2''\<rparr>
   \<and> map_sum id URL
     (get_request (test_env roles_server) test_client ''/api/v2/users''
        (Some \<lparr>Top = 100, Skip = 0, OrderBy = [], Filter = ''id eq 5'', NextLink = []\<rparr>))
     = Inr \<lparr>Location = ''https://rest.avatax.com/api/v2/users'',
            RawQuery = ''%24filter=id+eq+5&%24top=100''\<rparr>
   \<and> map_sum id URL
     (get_request (test_env roles_server) test_client ''/api/v2/utilities/ping'' None)
     = Inr \<lparr>Location = ''https://rest.avatax.com/api/v2/utilities/ping'', RawQuery = []\<rparr>"
proof -
  let ?env = "test_env roles_server"
  let ?hd = "[''Authorization'' \<mapsto> ''Basic '' @ credentials test_client,
              ''X-Avalara-Client'' \<mapsto> clientHeader test_client,
              ''Content-Type'' \<mapsto> ''application/json'',
              ''Accept'' \<mapsto> ''application/json'']"
  let ?oa = "\<lparr>Top = 100, Skip = 7, OrderBy = ''id'', Filter = ''id eq 5'',
              NextLink = roles_next_link\<rparr>"
  let ?ob = "\<lparr>Top = 100, Skip = 0, OrderBy = [], Filter = ''id eq 5'', NextLink = []\<rparr>"
  let ?ua = "\<lparr>Location = ''https://rest.avatax.com/api/v2/definitions/securityroles'',
              RawQuery = ''$skip=2&$top=2''\<rparr>"
  let ?ub = "\<lparr>Location = ''https://rest.avatax.com/api/v2/users'',
              RawQuery = ''%24filter=id+eq+5&%24top=100''\<rparr>"
  let ?uc = "\<lparr>Location = ''https://rest.avatax.com/api/v2/utilities/ping'', RawQuery = []\<rparr>"
  have na: "NextLink ?oa \<noteq> []" and nb: "NextLink ?ob = []"
    by (simp_all add: roles_next_link_def)
  have ra: "get_request ?env test_client ''/api/v2/definitions/securityroles'' (Some ?oa)
              = Inr \<lparr>Method = ''GET'', URL = ?ua, Header = ?hd\<rparr>"
    by (simp add: test_defs roles_next_link_def)
  have rb: "get_request ?env test_client ''/api/v2/users'' (Some ?ob)
              = Inr \<lparr>Method = ''GET'', URL = ?ub, Header = ?hd\<rparr>"
    by (simp add: test_defs)
  have rc: "get_request ?env test_client ''/api/v2/utilities/ping'' None
              = Inr \<lparr>Method = ''GET'', URL = ?uc, Header = ?hd\<rparr>"
    by (simp add: test_defs)
  note ta = get_request_URL [THEN conjunct1, rule_format, OF conjI [OF na ra]]
  note tb = get_request_URL [THEN conjunct2, THEN conjunct2, THEN conjunct1, rule_format,
      OF conjI [OF nb rb]]
  note tc = get_request_URL [THEN conjunct2, THEN conjunct2, THEN conjunct2, THEN conjunct1,
      rule_format, OF rc]
  show ?thesis
    using ta tb tc by (simp add: ra rb rc)
qed

subsection \<open>Grants of a role\<close>

lemma GetUsers_next_page_token:
  "GetUsers env c h (Some a) = (h', Some users, nextOptions, None) \<Longrightarrow>
     next_page_token h' nextOptions = nextLink users"
  by (auto simp add: GetUsers_def updatePaginationOptions_Some next_page_token_def
      split: sum.splits)

lemma GetUserRoles_next_page_token:
  "GetUserRoles env c h (Some a) = (h', Some roles, nextOptions, None) \<Longrightarrow>
     next_page_token h' nextOptions = nextLink roles"
  by (auto simp add: GetUserRoles_def updatePaginationOptions_Some next_page_token_def
      split: sum.splits)

lemma Grants_loop_eq:
  "Grants_loop resource d users rv
     = Inr (rv @ map (\<lambda>user. NewGrant resource ''member''
                       \<lparr>ResourceType = ''user'', Resource = Itoa (user_ID user)\<rparr>)
                  (filter (\<lambda>user. user_SecurityRoleID user = d) users))"
  by (induction users arbitrary: rv)
    (simp_all add: NewResourceID_def userResourceType_def RoleMemberEntitlement_def)

text \<open>
  C3: for the page of users that \<^verbatim>\<open>GetUsers\<close> returns, \<^verbatim>\<open>Grants\<close> returns one grant
  for each user of the page whose \<^verbatim>\<open>securityRoleId\<close> equals the description in the
  profile of the role resource, in the order of the page, and no other grant; each is a
  grant of the role's \<^verbatim>\<open>member\<close> entitlement to the user resource with that user's
  id. For the users with id 1 and role \<^verbatim>\<open>AccountUser\<close> and id 2 and role
  \<^verbatim>\<open>AccountAdmin\<close>, and a role with description \<^verbatim>\<open>AccountUser\<close>, it is the one grant
  from the role to user 1.
\<close>

theorem Grants_matching_users:
  assumes "GetRoleTrait resource = Inr profile"
    and "GetProfileStringValue profile ''description'' = (roleDescription, True)"
    and "page_options pToken = (h, options)"
    and "GetUsers env c h (Some options) = (h', Some users, nextOptions, None)"
  shows "\<exists>grants. Grants env c resource pToken = Inr (grants, nextLink users)
     \<and> grants = map (\<lambda>user. NewGrant resource ''member''
                        \<lparr>ResourceType = ''user'', Resource = Itoa (user_ID user)\<rparr>)
                  (filter (\<lambda>user. user_SecurityRoleID user = roleDescription) (Value users))
     \<and> map (\<lambda>g. (ent_Resource (grant_Entitlement g), res_Id (grant_Principal g))) grants
         = map (\<lambda>user. (resource, \<lparr>ResourceType = ''user'', Resource = Itoa (user_ID user)\<rparr>))
             (filter (\<lambda>user. user_SecurityRoleID user = roleDescription) (Value users))
     \<and> length grants
         = length (filter (\<lambda>user. user_SecurityRoleID user = roleDescription) (Value users))"
  using assms GetUsers_next_page_token [OF assms(4)]
  by (simp add: Grants_def Grants_loop_eq NewGrant_def comp_def)

theorem Grants_matching_users_witness:
  "Grants (test_env (testRoundTripper \<lparr>StatusCode = 200, Body = Inr users_body\<rparr> None))
     test_client test_role None
   = Inr ([\<lparr>grant_Entitlement = \<lparr>ent_Id = ''role:5:member'', ent_Resource = test_role\<rparr>,
            grant_Principal =
              \<lparr>res_Id = \<lparr>ResourceType = ''user'', Resource = ''1''\<rparr>,
               res_ParentResourceId = None, res_DisplayName = [], res_Annotations = []\<rparr>,
            grant_Id = ''role:5:member:user:1''\<rparr>], [])"
proof -
  let ?env = "test_env (testRoundTripper \<lparr>StatusCode = 200, Body = Inr users_body\<rparr> None)"
  let ?o = "\<lparr>Top = 100, Skip = 0, OrderBy = [], Filter = [], NextLink = []\<rparr>"
  let ?h = "\<lparr>cells = (cells empty_Heap)(0 := ?o), fresh = Suc 0\<rparr>"
  let ?users = "\<lparr>RecordsetCount = 0,
                Value = [test_user 1 ''AccountUser'', test_user 2 ''AccountAdmin''],
                nextLink = [], PageKey = []\<rparr>"
  have a1: "GetRoleTrait test_role
              = Inr (Some [(''id'', StringValue ''5''),
                           (''description'', StringValue ''AccountUser'')])"
    by (simp add: GetRoleTrait_def test_role_def)
  have a2: "GetProfileStringValue
              (Some [(''id'', StringValue ''5''), (''description'', StringValue ''AccountUser'')])
              ''description'' = (''AccountUser'', True)"
    by (simp add: GetProfileStringValue_def)
  have a3: "page_options None = (?h, 0)"
    by (simp add: page_options_def new_def empty_Heap_def)
  have a4: "GetUsers ?env test_client ?h (Some 0)
              = (?h\<lparr>cells := (cells ?h)(0 := (cells ?h 0)\<lparr>NextLink := []\<rparr>)\<rparr>,
                 Some ?users, Some 0, None)"
    by (simp add: GetUsers_def test_defs test_Unmarshal_users_def updatePaginationOptions_Some)
  show ?thesis
    using Grants_matching_users [OF a1 a2 a3 a4]
    by (simp add: test_user_def NewGrant_def NewEntitlementID_def test_role_def
        Itoa_def utoa.simps digit_def)
qed

subsection \<open>Listing the roles\<close>

lemma digit_inj: "a < 10 \<Longrightarrow> b < 10 \<Longrightarrow> digit a = digit b \<Longrightarrow> a = b"
proof -
  assume a: "a < 10" and b: "b < 10" and e: "digit a = digit b"
  have d: "distinct ''0123456789''" by simp
  have l: "length ''0123456789'' = 10" by simp
  from e have "''0123456789'' ! a = ''0123456789'' ! b" by (simp add: digit_def)
  with d a b l show "a = b"
    by (metis nth_eq_iff_index_eq)
qed

lemma digit_in: "a < 10 \<Longrightarrow> digit a \<in> set ''0123456789''"
  unfolding digit_def by (rule nth_mem) simp

lemma utoa_not_Nil: "utoa n \<noteq> []"
  by (subst utoa.simps) simp

lemma last_utoa: "last (utoa n) = digit (n mod 10)"
  by (subst utoa.simps) simp

lemma butlast_utoa: "butlast (utoa n) = (if n < 10 then [] else utoa (n div 10))"
  by (subst utoa.simps) simp

lemma set_utoa: "set (utoa n) \<subseteq> set ''0123456789''"
proof (induction n rule: utoa.induct)
  case (1 n)
  show ?case
  proof (cases "n < 10")
    case True
    then show ?thesis using digit_in [of n] by (subst utoa.simps) simp
  next
    case False
    have "digit (n mod 10) \<in> set ''0123456789''" by (rule digit_in) simp
    with False 1 show ?thesis by (subst utoa.simps) simp
  qed
qed

lemma utoa_inj: "utoa m = utoa n \<Longrightarrow> m = n"
proof (induction m arbitrary: n rule: utoa.induct)
  case (1 m)
  from "1.prems" have l: "digit (m mod 10) = digit (n mod 10)"
    by (metis last_utoa)
  then have m10: "m mod 10 = n mod 10"
    by (intro digit_inj) simp_all
  from "1.prems" have b: "butlast (utoa m) = butlast (utoa n)" by simp
  show ?case
  proof (cases "m < 10")
    case True
    with b have "n < 10"
      using utoa_not_Nil [of "n div 10"] by (auto simp add: butlast_utoa split: if_splits)
    with True m10 show ?thesis by simp
  next
    case False
    with b have n: "\<not> n < 10" and "utoa (m div 10) = utoa (n div 10)"
      using utoa_not_Nil [of "m div 10"] by (auto simp add: butlast_utoa split: if_splits)
    with False "1.IH" have "m div 10 = n div 10" by simp
    with m10 show ?thesis by (metis div_mult_mod_eq)
  qed
qed

lemma Itoa_inj: "Itoa i = Itoa j \<Longrightarrow> i = j"
proof -
  assume e: "Itoa i = Itoa j"
  have minus: "CHR ''-'' \<notin> set (utoa n)" for n
    using set_utoa [of n] by auto
  have hd: "utoa n \<noteq> CHR ''-'' # xs" for n xs
    using minus [of n] by (metis list.set_intros(1))
  show "i = j"
  proof (cases "i < 0")
    case True
    show ?thesis
    proof (cases "j < 0")
      case T2: True
      with True e have "utoa (nat (- i)) = utoa (nat (- j))" by (simp add: Itoa_def)
      then have "nat (- i) = nat (- j)" by (rule utoa_inj)
      with True T2 show ?thesis by simp
    next
      case False
      with True e hd [of "nat j"] show ?thesis by (simp add: Itoa_def) metis
    qed
  next
    case False
    show ?thesis
    proof (cases "j < 0")
      case True
      with False e hd [of "nat i"] show ?thesis by (simp add: Itoa_def)
    next
      case F2: False
      with False e have "utoa (nat i) = utoa (nat j)" by (simp add: Itoa_def)
      then have "nat i = nat j" by (rule utoa_inj)
      with False F2 show ?thesis by simp
    qed
  qed
qed

lemma List_loop_Inr:
  "List_loop env parent roles rv = Inr rv' \<Longrightarrow>
     rv' = rv @ map (\<lambda>role.
             \<lparr>res_Id = \<lparr>ResourceType = ''role'', Resource = Itoa (role_ID role)\<rparr>,
              res_ParentResourceId = parent,
              res_DisplayName = role_Description role,
              res_Annotations =
                [RoleTrait (Some [(''id'', StringValue (Itoa (role_ID role))),
                                  (''description'', StringValue (role_Description role))])]\<rparr>)
           roles"
proof (induction roles arbitrary: rv)
  case Nil
  then show ?case by simp
next
  case (Cons role roles)
  let ?r = "\<lparr>res_Id = \<lparr>ResourceType = ''role'', Resource = Itoa (role_ID role)\<rparr>,
              res_ParentResourceId = parent,
              res_DisplayName = role_Description role,
              res_Annotations =
                [RoleTrait (Some [(''id'', StringValue (Itoa (role_ID role))),
                                  (''description'', StringValue (role_Description role))])]\<rparr>"
  from Cons.prems have "List_loop env parent roles (rv @ [?r]) = Inr rv'"
    by (auto simp add: NewRoleResource_def NewResourceID_def NewStruct_def
        roleResourceType_def split: sum.splits if_splits)
  from Cons.IH [OF this] show ?case by simp
qed

lemma List_page:
  assumes "page_options pToken = (h, options)"
    and "GetUserRoles env c h (Some options) = (h', Some roles, nextOptions, None)"
    and "List env c parent pToken = Inr (rv, token)"
  shows "rv = map (\<lambda>role.
             \<lparr>res_Id = \<lparr>ResourceType = ''role'', Resource = Itoa (role_ID role)\<rparr>,
              res_ParentResourceId = parent,
              res_DisplayName = role_Description role,
              res_Annotations =
                [RoleTrait (Some [(''id'', StringValue (Itoa (role_ID role))),
                                  (''description'', StringValue (role_Description role))])]\<rparr>)
           (Value roles)"
    and "token = nextLink roles"
    and "map res_Id rv
           = map (\<lambda>role. \<lparr>ResourceType = ''role'', Resource = Itoa (role_ID role)\<rparr>)
               (Value roles)"
  using assms GetUserRoles_next_page_token [OF assms(2)]
  by (auto simp add: List_def comp_def split: sum.splits dest!: List_loop_Inr)

lemma role_ids_distinct:
  assumes "distinct (map role_ID roles)"
  shows "distinct (map (\<lambda>role. \<lparr>ResourceType = ''role'', Resource = Itoa (role_ID role)\<rparr>)
                    roles)"
proof -
  from assms have "distinct roles" and "inj_on role_ID (set roles)"
    by (simp_all add: distinct_map)
  then show ?thesis
    by (auto simp add: distinct_map inj_on_def dest: Itoa_inj)
qed

text \<open>
  C7: a server holds two pages of roles, the first with the roles 1 \<^verbatim>\<open>SystemAdmin\<close> and
  2 \<^verbatim>\<open>AccountAdmin\<close> and a next link, the second, behind that link, with the roles 3
  \<^verbatim>\<open>CompanyAdmin\<close> and 4 \<^verbatim>\<open>CompanyUser\<close> and no next link. \<^verbatim>\<open>List\<close> without a token
  gives the two resources of the first page and the link as the next token, and
  \<^verbatim>\<open>List\<close> with that token gives the two resources of the second page and an empty
  token: four resources in all, with four different resource ids, each with the id and
  the description of its role in its profile.
\<close>

theorem List_two_pages:
  "List (test_env roles_server) test_client None None
     = Inr ([\<lparr>res_Id = \<lparr>ResourceType = ''role'', Resource = ''1''\<rparr>,
              res_ParentResourceId = None, res_DisplayName = ''SystemAdmin'',
              res_Annotations =
                [RoleTrait (Some [(''id'', StringValue ''1''),
                                  (''description'', StringValue ''SystemAdmin'')])]\<rparr>,
             \<lparr>res_Id = \<lparr>ResourceType = ''role'', Resource = ''2''\<rparr>,
              res_ParentResourceId = None, res_DisplayName = ''AccountAdmin'',
              res_Annotations =
                [RoleTrait (Some [(''id'', StringValue ''2''),
                                  (''description'', StringValue ''AccountAdmin'')])]\<rparr>],
            roles_next_link)
   \<and> List (test_env roles_server) test_client None (Some \<lparr>Token = roles_next_link, Size = 0\<rparr>)
     = Inr ([\<lparr>res_Id = \<lparr>ResourceType = ''role'', Resource = ''3''\<rparr>,
              res_ParentResourceId = None, res_DisplayName = ''CompanyAdmin'',
              res_Annotations =
                [RoleTrait (Some [(''id'', StringValue ''3''),
                                  (''description'', StringValue ''CompanyAdmin'')])]\<rparr>,
             \<lparr>res_Id = \<lparr>ResourceType = ''role'', Resource = ''4''\<rparr>,
              res_ParentResourceId = None, res_DisplayName = ''CompanyUser'',
              res_Annotations =
                [RoleTrait (Some [(''id'', StringValue ''4''),
                                  (''description'', StringValue ''CompanyUser'')])]\<rparr>],
            [])
   \<and> length (fst (projr (List (test_env roles_server) test_client None None))
        @ fst (projr (List (test_env roles_server) test_client None
                        (Some \<lparr>Token = roles_next_link, Size = 0\<rparr>)))) = 4
   \<and> distinct (map res_Id
        (fst (projr (List (test_env roles_server) test_client None None))
         @ fst (projr (List (test_env roles_server) test_client None
                         (Some \<lparr>Token = roles_next_link, Size = 0\<rparr>)))))"
proof -
  let ?env = "test_env roles_server"
  let ?o = "\<lparr>Top = 100, Skip = 0, OrderBy = [], Filter = [], NextLink = []\<rparr>"
  let ?h1 = "\<lparr>cells = (cells empty_Heap)(0 := ?o), fresh = Suc 0\<rparr>"
  let ?h2 = "\<lparr>cells = (cells empty_Heap)
                 (0 := \<lparr>Top = 100, Skip = 0, OrderBy = [], Filter = [],
                         NextLink = roles_next_link\<rparr>),
               fresh = Suc 0\<rparr>"
  let ?p1 = "\<lparr>RecordsetCount = 0,
                Value = [\<lparr>role_ID = 1, role_Description = ''SystemAdmin''\<rparr>,
                         \<lparr>role_ID = 2, role_Description = ''AccountAdmin''\<rparr>],
                nextLink = roles_next_link, PageKey = []\<rparr>"
  let ?p2 = "\<lparr>RecordsetCount = 0,
                Value = [\<lparr>role_ID = 3, role_Description = ''CompanyAdmin''\<rparr>,
                         \<lparr>role_ID = 4, role_Description = ''CompanyUser''\<rparr>],
                nextLink = [], PageKey = []\<rparr>"
  have o1: "page_options None = (?h1, 0)"
    by (simp add: page_options_def new_def empty_Heap_def)
  have o2: "page_options (Some \<lparr>Token = roles_next_link, Size = 0\<rparr>) = (?h2, 0)"
    by (simp add: page_options_def new_def empty_Heap_def assign_NextLink_def
        roles_next_link_def)
  have g1: "GetUserRoles ?env test_client ?h1 (Some 0)
              = (?h1\<lparr>cells := (cells ?h1)(0 := (cells ?h1 0)\<lparr>NextLink := roles_next_link\<rparr>)\<rparr>,
                 Some ?p1, Some 0, None)"
    by (simp add: GetUserRoles_def test_defs roles_server_def test_Unmarshal_roles_def
        updatePaginationOptions_Some)
  have g2: "GetUserRoles ?env test_client ?h2 (Some 0)
              = (?h2\<lparr>cells := (cells ?h2)(0 := (cells ?h2 0)\<lparr>NextLink := []\<rparr>)\<rparr>,
                 Some ?p2, Some 0, None)"
    by (simp add: GetUserRoles_def test_defs roles_server_def test_Unmarshal_roles_def
        updatePaginationOptions_Some roles_next_link_def roles_page1_body_def
        roles_page2_body_def)
  have v: "ValidString ?env = list_all (\<lambda>c. c < CHR 0x80)"
    by (simp add: test_env_def)
  have l1: "List ?env test_client None None
     = Inr ([\<lparr>res_Id = \<lparr>ResourceType = ''role'', Resource = ''1''\<rparr>,
              res_ParentResourceId = None, res_DisplayName = ''SystemAdmin'',
              res_Annotations =
                [RoleTrait (Some [(''id'', StringValue ''1''),
                                  (''description'', StringValue ''SystemAdmin'')])]\<rparr>,
             \<lparr>res_Id = \<lparr>ResourceType = ''role'', Resource = ''2''\<rparr>,
              res_ParentResourceId = None, res_DisplayName = ''AccountAdmin'',
              res_Annotations =
                [RoleTrait (Some [(''id'', StringValue ''2''),
                                  (''description'', StringValue ''AccountAdmin'')])]\<rparr>],
            roles_next_link)"
    by (simp add: List_def o1 g1 next_page_token_def NewRoleResource_def NewResourceID_def
        NewStruct_def roleResourceType_def v Itoa_def utoa.simps digit_def
        roles_next_link_def)
  have l2: "List ?env test_client None (Some \<lparr>Token = roles_next_link, Size = 0\<rparr>)
     = Inr ([\<lparr>res_Id = \<lparr>ResourceType = ''role'', Resource = ''3''\<rparr>,
              res_ParentResourceId = None, res_DisplayName = ''CompanyAdmin'',
              res_Annotations =
                [RoleTrait (Some [(''id'', StringValue ''3''),
                                  (''description'', StringValue ''CompanyAdmin'')])]\<rparr>,
             \<lparr>res_Id = \<lparr>ResourceType = ''role'', Resource = ''4''\<rparr>,
              res_ParentResourceId = None, res_DisplayName = ''CompanyUser'',
              res_Annotations =
                [RoleTrait (Some [(''id'', StringValue ''4''),
                                  (''description'', StringValue ''CompanyUser'')])]\<rparr>],
            [])"
    by (simp add: List_def o2 g2 next_page_token_def NewRoleResource_def NewResourceID_def
        NewStruct_def roleResourceType_def v Itoa_def utoa.simps digit_def)
  show ?thesis
    by (simp add: l1 l2)
qed

end
